theory Spec2Isabelle
  imports Complex_Main "HOL-Library.Sublist"
begin

section \<open>Strings as Python uses them\<close>

text \<open>
  Document text is modelled as \<^typ>\<open>string\<close>, one \<^typ>\<open>char\<close> per character,
  over the ASCII range: the marker vocabulary, the digits and the letters the
  program tests for are all ASCII.  \<open>is_space\<close> is the ASCII part of what
  Python's \<open>str.strip()\<close> and the regular expression class \<open>\s\<close> accept;
  \<open>is_digit\<close> and \<open>is_word\<close> are the ASCII parts of \<open>\d\<close> and \<open>\w\<close>.
\<close>

definition is_space :: "char \<Rightarrow> bool" where
  "is_space c = (c \<in> set [CHR '' '', CHR 0x09, CHR 0x0A, CHR 0x0B, CHR 0x0C, CHR 0x0D,
                             CHR 0x1C, CHR 0x1D, CHR 0x1E, CHR 0x1F])"

definition is_digit :: "char \<Rightarrow> bool" where
  "is_digit c = (c \<in> set ''0123456789'')"

definition is_upper :: "char \<Rightarrow> bool" where
  "is_upper c = (c \<in> set ''ABCDEFGHIJKLMNOPQRSTUVWXYZ'')"

definition is_lower :: "char \<Rightarrow> bool" where
  "is_lower c = (c \<in> set ''abcdefghijklmnopqrstuvwxyz'')"

definition is_word :: "char \<Rightarrow> bool" where
  "is_word c = (is_lower c \<or> is_upper c \<or> is_digit c \<or> c = CHR ''_'')"

definition to_lower :: "char \<Rightarrow> char" where
  "to_lower c =
     (case map_of (zip ''ABCDEFGHIJKLMNOPQRSTUVWXYZ'' ''abcdefghijklmnopqrstuvwxyz'') c of
        Some d \<Rightarrow> d | None \<Rightarrow> c)"

definition to_upper :: "char \<Rightarrow> char" where
  "to_upper c =
     (case map_of (zip ''abcdefghijklmnopqrstuvwxyz'' ''ABCDEFGHIJKLMNOPQRSTUVWXYZ'') c of
        Some d \<Rightarrow> d | None \<Rightarrow> c)"

text \<open>
  The same two functions on the bits of the character code (an upper-case letter is
  \<open>0x41\<close> to \<open>0x5A\<close>, its lower-case letter has bit 5 set), for fast evaluation.
\<close>

lemma to_lower_code [code]:
  "to_lower (Char b0 b1 b2 b3 b4 b5 b6 b7) =
     (if \<not> b7 \<and> b6 \<and> \<not> b5 \<and> (b0 \<or> b1 \<or> b2 \<or> b3 \<or> b4) \<and> \<not> (b4 \<and> b3 \<and> (b2 \<or> (b1 \<and> b0)))
      then Char b0 b1 b2 b3 b4 True b6 b7 else Char b0 b1 b2 b3 b4 b5 b6 b7)"
proof -
  consider "b7" | "\<not> b6" | "b5" | "\<not> b7" "b6" "\<not> b5" by blast
  then show ?thesis
  proof cases
    case 1 then show ?thesis by (simp add: to_lower_def)
  next
    case 2 then show ?thesis by (simp add: to_lower_def)
  next
    case 3 then show ?thesis by (simp add: to_lower_def)
  next
    case 4 then show ?thesis
      by (cases b0; cases b1; cases b2; cases b3; cases b4; simp add: to_lower_def)
  qed
qed

lemma to_upper_code [code]:
  "to_upper (Char b0 b1 b2 b3 b4 b5 b6 b7) =
     (if \<not> b7 \<and> b6 \<and> b5 \<and> (b0 \<or> b1 \<or> b2 \<or> b3 \<or> b4) \<and> \<not> (b4 \<and> b3 \<and> (b2 \<or> (b1 \<and> b0)))
      then Char b0 b1 b2 b3 b4 False b6 b7 else Char b0 b1 b2 b3 b4 b5 b6 b7)"
proof -
  consider "b7" | "\<not> b6" | "\<not> b5" | "\<not> b7" "b6" "b5" by blast
  then show ?thesis
  proof cases
    case 1 then show ?thesis by (simp add: to_upper_def)
  next
    case 2 then show ?thesis by (simp add: to_upper_def)
  next
    case 3 then show ?thesis by (simp add: to_upper_def)
  next
    case 4 then show ?thesis
      by (cases b0; cases b1; cases b2; cases b3; cases b4; simp add: to_upper_def)
  qed
qed

text \<open>\<open>s.lower()\<close>, \<open>s.upper()\<close>\<close>

definition lower :: "string \<Rightarrow> string" where
  "lower s = map to_lower s"

definition upper :: "string \<Rightarrow> string" where
  "upper s = map to_upper s"

text \<open>\<open>s.strip()\<close>\<close>

definition strip :: "string \<Rightarrow> string" where
  "strip s = rev (dropWhile is_space (rev (dropWhile is_space s)))"

text \<open>\<open>m in s\<close> for two strings: \<open>m\<close> occurs in \<open>s\<close> as a contiguous block.\<close>

fun str_in :: "string \<Rightarrow> string \<Rightarrow> bool" where
  "str_in m [] = (m = [])"
| "str_in m (c # cs) = (prefix m (c # cs) \<or> str_in m cs)"

text \<open>\<open>str(x)\<close> (and an f-string field) for a value that is a string or \<open>None\<close>.\<close>

fun py_str :: "string option \<Rightarrow> string" where
  "py_str None = ''None''"
| "py_str (Some s) = s"

text \<open>\<open>s.startswith(m)\<close> is \<^const>\<open>prefix\<close>; \<open>s.endswith(m)\<close>:\<close>

definition endswith :: "string \<Rightarrow> string \<Rightarrow> bool" where
  "endswith s m = suffix m s"

text \<open>
  \<open>s.split(sep, 1)\<close> for a non-empty separator: \<open>None\<close> when \<open>sep\<close> does not occur
  (Python returns the one-element list \<open>[s]\<close>), else the text before and after the
  first occurrence.
\<close>

fun split_once :: "string \<Rightarrow> string \<Rightarrow> (string \<times> string) option" where
  "split_once sep [] = None"
| "split_once sep (c # cs) =
     (if prefix sep (c # cs) then Some ([], drop (length sep) (c # cs))
      else map_option (\<lambda>(a, b). (c # a, b)) (split_once sep cs))"

text \<open>\<open>s.split(c)\<close> for a one-character separator; \<open>''.split(c) = ['']\<close>.\<close>

fun split_on :: "char \<Rightarrow> string \<Rightarrow> string list" where
  "split_on sep [] = [[]]"
| "split_on sep (c # cs) =
     (if c = sep then [] # split_on sep cs
      else (case split_on sep cs of [] \<Rightarrow> [[c]] | w # ws \<Rightarrow> (c # w) # ws))"

text \<open>\<open>sep.join(xs)\<close>\<close>

fun join :: "string \<Rightarrow> string list \<Rightarrow> string" where
  "join sep [] = []"
| "join sep [x] = x"
| "join sep (x # xs) = x @ sep @ join sep xs"

section \<open>Regular expressions as Python's \<open>re\<close> matches them\<close>

text \<open>
  The patterns of the program are written as terms of \<open>re\<close> and run by a
  backtracking matcher.  A cursor is the text already passed (reversed), the text
  still ahead, and the groups captured so far.  \<open>rmatch p c\<close> lists every cursor at
  which a match of \<open>p\<close> starting at \<open>c\<close> can end, in the order in which Python's
  matcher tries them: the first alternative before the second, a greedy star the
  longest repetition first, a lazy star the shortest first.  The first element is
  therefore the match Python reports.  A star whose body matches without consuming
  text stops there (no pattern of the program has such a body).
\<close>

type_synonym cursor = "string \<times> string \<times> (nat \<times> string) list"

datatype re =
    Eps
  | Sym "char \<Rightarrow> bool"
  | Seq re re
  | Alt re re
  | Star re
  | StarL re
  | Grp nat re
  | Ahead re
  | Bos | Bol | Eos | Eol | WordB

definition remaining :: "cursor \<Rightarrow> nat" where
  "remaining c = length (fst (snd c))"

function rmatch :: "re \<Rightarrow> cursor \<Rightarrow> cursor list" where
  "rmatch Eps c = [c]"
| "rmatch (Sym p) (l, r, g) =
     (case r of [] \<Rightarrow> [] | x # xs \<Rightarrow> if p x then [(x # l, xs, g)] else [])"
| "rmatch (Seq a b) c = concat (map (rmatch b) (rmatch a c))"
| "rmatch (Alt a b) c = rmatch a c @ rmatch b c"
| "rmatch (Star a) c =
     concat (map (\<lambda>c'. if remaining c' < remaining c then rmatch (Star a) c' else []) (rmatch a c))
       @ [c]"
| "rmatch (StarL a) c =
     c # concat (map (\<lambda>c'. if remaining c' < remaining c then rmatch (StarL a) c' else [])
                  (rmatch a c))"
| "rmatch (Grp n a) (l, r, g) =
     map (\<lambda>(l', r', g'). (l', r', (n, take (length r - length r') r) # g')) (rmatch a (l, r, g))"
| "rmatch (Ahead a) c = (if rmatch a c = [] then [] else [c])"
| "rmatch Bos (l, r, g) = (if l = [] then [(l, r, g)] else [])"
| "rmatch Bol (l, r, g) =
     (case l of [] \<Rightarrow> [(l, r, g)] | x # _ \<Rightarrow> if x = CHR 0x0A then [(l, r, g)] else [])"
| "rmatch Eos (l, r, g) = (if r = [] \<or> r = [CHR 0x0A] then [(l, r, g)] else [])"
| "rmatch Eol (l, r, g) =
     (case r of [] \<Rightarrow> [(l, r, g)] | x # _ \<Rightarrow> if x = CHR 0x0A then [(l, r, g)] else [])"
| "rmatch WordB (l, r, g) =
     (if (case l of [] \<Rightarrow> False | x # _ \<Rightarrow> is_word x) \<noteq> (case r of [] \<Rightarrow> False | x # _ \<Rightarrow> is_word x)
      then [(l, r, g)] else [])"
  by pat_completeness auto
termination
  by (relation "measures [\<lambda>(r, c). size r, \<lambda>(r, c). remaining c]") auto

text \<open>
  Pattern notation: \<open>Bos\<close> is \<open>^\<close> and \<open>Eos\<close> is \<open>$\<close> without the MULTILINE flag
  (\<open>$\<close> also matches before a final newline), \<open>Bol\<close> and \<open>Eol\<close> are \<open>^\<close> and \<open>$\<close>
  with it, \<open>WordB\<close> is \<open>\b\<close>, \<open>Ahead\<close> is \<open>(?=...)\<close>, \<open>Grp n\<close> is the \<open>n\<close>-th
  capturing group.  \<open>lit\<close> is a literal text, \<open>liti\<close> a literal under IGNORECASE.
\<close>

definition lit :: "string \<Rightarrow> re" where
  "lit s = foldr (\<lambda>c r. Seq (Sym (\<lambda>x. x = c)) r) s Eps"

definition liti :: "string \<Rightarrow> re" where
  "liti s = foldr (\<lambda>c r. Seq (Sym (\<lambda>x. x = to_lower c \<or> x = to_upper c)) r) s Eps"

definition Plus :: "re \<Rightarrow> re" where
  "Plus a = Seq a (Star a)"

definition Opt :: "re \<Rightarrow> re" where
  "Opt a = Alt a Eps"

fun seqs :: "re list \<Rightarrow> re" where
  "seqs [] = Eps"
| "seqs [a] = a"
| "seqs (a # as) = Seq a (seqs as)"

fun alts :: "re list \<Rightarrow> re" where
  "alts [] = Eps"
| "alts [a] = a"
| "alts (a # as) = Alt a (alts as)"

text \<open>\<open>\s*\<close>, \<open>\s+\<close>, \<open>\d+\<close>, \<open>\w+\<close>, \<open>.\<close> (no newline), \<open>.\<close> under DOTALL, \<open>[A-Z]\<close>\<close>

definition ws_star :: re where "ws_star = Star (Sym is_space)"
definition ws_plus :: re where "ws_plus = Plus (Sym is_space)"
definition digits :: re where "digits = Plus (Sym is_digit)"
definition word_plus :: re where "word_plus = Plus (Sym is_word)"
definition dot :: re where "dot = Sym (\<lambda>c. c \<noteq> CHR 0x0A)"
definition any_char :: re where "any_char = Sym (\<lambda>c. True)"
definition cap_letter :: re where "cap_letter = Sym is_upper"

text \<open>
  \<open>re.search\<close>: the leftmost start at which the pattern matches, with the match
  the matcher prefers there; the result is the start and the end cursor.
\<close>

fun search_from :: "re \<Rightarrow> string \<Rightarrow> string \<Rightarrow> (cursor \<times> cursor) option" where
  "search_from p l [] =
     (case rmatch p (l, [], []) of [] \<Rightarrow> None | e # _ \<Rightarrow> Some ((l, [], []), e))"
| "search_from p l (x # xs) =
     (case rmatch p (l, x # xs, []) of
        [] \<Rightarrow> search_from p (x # l) xs
      | e # _ \<Rightarrow> Some ((l, x # xs, []), e))"

definition re_search :: "re \<Rightarrow> string \<Rightarrow> (cursor \<times> cursor) option" where
  "re_search p s = search_from p [] s"

definition re_test :: "re \<Rightarrow> string \<Rightarrow> bool" where
  "re_test p s = (re_search p s \<noteq> None)"

text \<open>\<open>m.group(n)\<close> and \<open>m.group(0)\<close> of a match.\<close>

definition group :: "nat \<Rightarrow> cursor \<times> cursor \<Rightarrow> string option" where
  "group n m = map_of (snd (snd (snd m))) n"

definition matched :: "cursor \<times> cursor \<Rightarrow> string" where
  "matched m = take (remaining (fst m) - remaining (snd m)) (fst (snd (fst m)))"

text \<open>
  \<open>re.finditer\<close>: the successive non-overlapping matches, each search starting
  where the previous match ended.  Every pattern the program scans with consumes
  at least one character; after an empty match the scan moves on by one character.
\<close>

function find_from :: "re \<Rightarrow> string \<Rightarrow> string \<Rightarrow> (cursor \<times> cursor) list" where
  "find_from p l r =
     (case search_from p l r of
        None \<Rightarrow> []
      | Some (s, e) \<Rightarrow>
          (s, e) #
            (if remaining e < length r then find_from p (fst e) (fst (snd e))
             else (case r of [] \<Rightarrow> [] | x # xs \<Rightarrow> find_from p (x # l) xs)))"
  by pat_completeness auto

termination
  by (relation "measure (\<lambda>(p, l, r). length r)") (auto simp: remaining_def)

definition re_finditer :: "re \<Rightarrow> string \<Rightarrow> (cursor \<times> cursor) list" where
  "re_finditer p s = find_from p [] s"

text \<open>
  \<open>re.sub(p, repl, s)\<close> with a constant replacement: the text between the matches
  is kept, each match is replaced.
\<close>

fun sub_matches :: "string \<Rightarrow> string \<Rightarrow> nat \<Rightarrow> (cursor \<times> cursor) list \<Rightarrow> string" where
  "sub_matches repl s n [] = drop (length s - n) s"
| "sub_matches repl s n (m # ms) =
     take (n - remaining (fst m)) (drop (length s - n) s) @ repl
       @ sub_matches repl s (remaining (snd m)) ms"

definition re_sub :: "re \<Rightarrow> string \<Rightarrow> string \<Rightarrow> string" where
  "re_sub p repl s = sub_matches repl s (length s) (re_finditer p s)"

section \<open>Data model\<close>

type_synonym bytes = string

text \<open>The image dictionaries \<open>{"data", "format", "path"}\<close> built by the extractor.\<close>

record image =
  img_data :: bytes
  img_format :: string
  img_path :: string

text \<open>\<open>ContentItem\<close> / its \<open>to_dict()\<close> form.\<close>

record content_item =
  ci_type :: string
  ci_content :: string
  ci_frame_refs :: "string list"
  ci_images :: "image list"

text \<open>
  The question dictionaries of \<open>_create_question_from_item\<close>.  The number is
  \<open>None\<close> when \<open>get_question_number\<close> finds no digits.
\<close>

record question =
  q_number :: "string option"
  q_type :: string
  q_content_items :: "content_item list"
  q_text :: string
  q_images :: "image list"

text \<open>
  Entries of a case-study segment: \<open>{"type": "Text", "content": ...}\<close>,
  \<open>{"type": "Title", "content": ...}\<close> and
  \<open>{"type": "Image", "image": ..., "is_answer_image": ...}\<close>.
\<close>

datatype seg_entry = TextEntry string | TitleEntry string | ImageEntry image bool

record segment =
  seg_name :: string
  seg_contents :: "seg_entry list"

text \<open>The case-study dictionary created by \<open>start_case_study\<close>.\<close>

record case_study =
  cs_topic_number :: string
  cs_number :: string
  cs_topic_name :: string
  cs_segments :: "segment list"
  cs_questions :: "question list"
  cs_images :: "image list"

section \<open>Validator (\<open>image_validation.py\<close>)\<close>

text \<open>
  \<open>image_markers\<close> is a dictionary used as a set of marker names; the five
  \<open>if\<close> statements of the source are applied to one piece of text.
\<close>

definition note_markers :: "string \<Rightarrow> string set \<Rightarrow> string set" where
  "note_markers c m0 =
    (let m1 = (if str_in ''QuestionOptionImage:'' c then insert ''QuestionOptionImage'' m0 else m0);
         m2 = (if str_in ''AnswerOptionImage:'' c then insert ''AnswerOptionImage'' m1 else m1);
         m3 = (if str_in ''QuestionDescriptionImage:'' c then insert ''QuestionDescriptionImage'' m2 else m2);
         m4 = (if str_in ''PositionedImage:'' c then insert ''PositionedImage'' m3 else m3);
         m5 = (if str_in ''BackgroundImage:'' c then insert ''BackgroundImage'' m4 else m4)
     in m5)"

text \<open>First the content items in order, then the question's whole text.\<close>

definition image_markers_of :: "question \<Rightarrow> string set" where
  "image_markers_of q =
     note_markers (q_text q) (fold (\<lambda>item m. note_markers (ci_content item) m) (q_content_items q) {})"

text \<open>
  Two required markers are checked one after the other; each missing one appends
  its message.  The arguments are the message texts after the common prefix.
\<close>

definition require2 :: "string set \<Rightarrow> string \<Rightarrow> string \<Rightarrow> string \<Rightarrow> string \<Rightarrow> string \<Rightarrow> string list" where
  "require2 markers pre k1 msg1 k2 msg2 =
     (if k1 \<notin> markers then [pre @ msg1] else []) @ (if k2 \<notin> markers then [pre @ msg2] else [])"

text \<open>The messages one question contributes (the body of the \<open>for\<close> loop).\<close>

definition question_errors :: "question \<Rightarrow> string list" where
  "question_errors q =
    (let num = py_str (q_number q); ms = image_markers_of q in
     if q_type q = ''HOTSPOT'' then
       require2 ms (''Question '' @ num @ '' (HOTSPOT) - Missing '')
         ''QuestionOptionImage'' ''QuestionOptionImage'' ''AnswerOptionImage'' ''AnswerOptionImage''
     else if q_type q = ''DRAGDROP'' then
       require2 ms (''Question '' @ num @ '' (DRAGDROP) - Missing '')
         ''QuestionOptionImage'' ''QuestionOptionImage'' ''AnswerOptionImage'' ''AnswerOptionImage''
     else if q_type q = ''DROPDOWN'' then
       require2 ms (''Question '' @ num @ '' (DROPDOWN Type 1) - Missing '')
         ''QuestionOptionImage'' ''QuestionOptionImage'' ''AnswerOptionImage'' ''AnswerOptionImage''
     else if q_type q = ''POSITIONEDDROPDOWN'' then
       require2 ms (''Question '' @ num @ '' (POSITIONEDDROPDOWN) - Missing '')
         ''BackgroundImage'' ''PositionedImage'' ''PositionedImage'' ''PositionedImage''
     else if q_type q = ''POSITIONEDDRAGDROP'' then
       require2 ms (''Question '' @ num @ '' (POSITIONEDDRAGDROP) - Missing '')
         ''BackgroundImage'' ''BackgroundImage'' ''PositionedImage'' ''PositionedImage''
     else [])"

text \<open>
  The loop state is the pair \<open>(all_valid, error_messages)\<close>; \<open>all_valid\<close> is
  cleared exactly when a message is appended.
\<close>

definition validate_step :: "question \<Rightarrow> bool \<times> string list \<Rightarrow> bool \<times> string list" where
  "validate_step q st =
     (let errs = question_errors q in (fst st \<and> errs = [], snd st @ errs))"

definition validate_question_images :: "question list \<Rightarrow> bool \<times> string list" where
  "validate_question_images questions = fold validate_step questions (True, [])"

text \<open>A Hotspot question with the question-option marker and no answer-option marker.\<close>

definition hotspot_no_answer :: question where
  "hotspot_no_answer =
     \<lparr>q_number = Some ''7'', q_type = ''HOTSPOT'',
      q_content_items =
        [\<lparr>ci_type = ''text'', ci_content = ''QUESTION NO: 7 HOTSPOT'', ci_frame_refs = [], ci_images = []\<rparr>,
         \<lparr>ci_type = ''text'', ci_content = ''QuestionOptionImage:'', ci_frame_refs = [], ci_images = []\<rparr>],
      q_text = ''QUESTION NO: 7 HOTSPOT\<newline>QuestionOptionImage:'', q_images = []\<rparr>"

section \<open>Text helpers (\<open>utils/text_helpers.py\<close>)\<close>

text \<open>\<open>m.group(n)\<close> where the group took part in the match (it does in every pattern here).\<close>

definition group_text :: "nat \<Rightarrow> cursor \<times> cursor \<Rightarrow> string" where
  "group_text n m = (case group n m of Some g \<Rightarrow> g | None \<Rightarrow> [])"

text \<open>\<open>QUESTION NO:\s*(\d+)\<close>, IGNORECASE\<close>

definition question_no_re :: re where
  "question_no_re = seqs [liti ''QUESTION NO:'', ws_star, Grp 1 digits]"

definition get_question_number :: "string \<Rightarrow> string option" where
  "get_question_number text =
     (case re_search question_no_re text of None \<Rightarrow> None | Some m \<Rightarrow> group 1 m)"

text \<open>The pattern lists of \<open>get_question_type\<close>, each searched with IGNORECASE.\<close>

definition positioneddragdrop_patterns :: "re list" where
  "positioneddragdrop_patterns =
     [liti ''POSITIONEDDRAGDROP'',
      liti ''PositionedDragDrop'',
      liti ''positioneddragdrop'',
      liti ''Positioned DragDrop'',
      seqs [liti ''QUESTION NO:'', ws_star, digits, ws_plus, liti ''POSITIONEDDRAGDROP''],
      seqs [liti ''QUESTION NO:'', ws_star, digits, ws_plus, liti ''PositionedDragDrop'']]"

definition positioneddropdown_patterns :: "re list" where
  "positioneddropdown_patterns =
     [liti ''POSITIONEDDROPDOWN'',
      liti ''PositionedDropdown'',
      liti ''positioneddropdown'',
      liti ''Positioned Dropdown'',
      seqs [liti ''QUESTION NO:'', ws_star, digits, ws_plus, liti ''POSITIONEDDROPDOWN''],
      seqs [liti ''QUESTION NO:'', ws_star, digits, ws_plus, liti ''PositionedDropdown'']]"

definition fillintheblank_patterns :: "re list" where
  "fillintheblank_patterns =
     [liti ''FillInTheBlank'',
      liti ''FILLINTHEBLANK'',
      liti ''fillInTheBlank'',
      liti ''Fill In The Blank'',
      seqs [liti ''QUESTION NO:'', ws_star, digits, ws_plus, liti ''FillInTheBlank''],
      seqs [lit ''___'', Star (lit ''_'')]]"

definition simulation_patterns :: "re list" where
  "simulation_patterns =
     [liti ''SIMULATION'',
      liti ''Simulation'',
      liti ''simulation'',
      seqs [liti ''QUESTION NO:'', ws_star, digits, ws_plus, liti ''SIMULATION''],
      seqs [liti ''QUESTION NO:'', ws_star, digits, ws_plus, liti ''Simulation'']]"

text \<open>The \<open>for pattern in ...: if re.search(...)\<close> loops.\<close>

definition any_search :: "re list \<Rightarrow> string \<Rightarrow> bool" where
  "any_search ps text = list_ex (\<lambda>p. re_test p text) ps"

text \<open>\<open>QUESTION NO:\s*\d+\s*(\w+)\<close>, IGNORECASE\<close>

definition type_match_re :: re where
  "type_match_re = seqs [liti ''QUESTION NO:'', ws_star, digits, ws_star, Grp 1 word_plus]"

definition declared_types :: "string list" where
  "declared_types =
     [''HOTSPOT'', ''DRAGDROP'', ''DROPDOWN'', ''RADIOBUTTON'', ''MULTIPLECHOICE'',
      ''FillInTheBlank'', ''SIMULATION'', ''POSITIONEDDROPDOWN'']"

text \<open>
  \<open>\bhot\s*spot\b|\bselect\b.*\byes\b.*\bif\b|\bselect\b.*\bstatement\b.*\btrue\b\<close>
\<close>

definition hotspot_cue_re :: re where
  "hotspot_cue_re = alts
     [seqs [WordB, liti ''hot'', ws_star, liti ''spot'', WordB],
      seqs [WordB, liti ''select'', WordB, Star dot, WordB, liti ''yes'', WordB,
            Star dot, WordB, liti ''if'', WordB],
      seqs [WordB, liti ''select'', WordB, Star dot, WordB, liti ''statement'', WordB,
            Star dot, WordB, liti ''true'', WordB]]"

text \<open>
  \<open>\bdrag\b.*\bdrop\b|\bmatch\b.*\bitem\b|\bdrag\b.*\bappropriate\b|\bcorrect\b\s+\bmatch\b\<close>
\<close>

definition dragdrop_cue_re :: re where
  "dragdrop_cue_re = alts
     [seqs [WordB, liti ''drag'', WordB, Star dot, WordB, liti ''drop'', WordB],
      seqs [WordB, liti ''match'', WordB, Star dot, WordB, liti ''item'', WordB],
      seqs [WordB, liti ''drag'', WordB, Star dot, WordB, liti ''appropriate'', WordB],
      seqs [WordB, liti ''correct'', WordB, ws_plus, WordB, liti ''match'', WordB]]"

text \<open>
  \<open>\bdrop\s*down\b|\bselect\b.*\bfrom\b.*\bmenu\b|\bcorrectly completes the sentence\b|\bselect the appropriate options? in the answer area\b\<close>
\<close>

definition dropdown_cue_re :: re where
  "dropdown_cue_re = alts
     [seqs [WordB, liti ''drop'', ws_star, liti ''down'', WordB],
      seqs [WordB, liti ''select'', WordB, Star dot, WordB, liti ''from'', WordB,
            Star dot, WordB, liti ''menu'', WordB],
      seqs [WordB, liti ''correctly completes the sentence'', WordB],
      seqs [WordB, liti ''select the appropriate option'', Opt (liti ''s''),
            liti '' in the answer area'', WordB]]"

text \<open>\<open>^[A-Z]\.\s+\<close> with MULTILINE, and \<open>Answer:\s*([A-Z](?:,\s*[A-Z])*)\<close>\<close>

definition option_start_re :: re where
  "option_start_re = seqs [Bol, cap_letter, lit ''.'', ws_plus]"

definition answer_line_re :: re where
  "answer_line_re =
     seqs [lit ''Answer:'', ws_star,
           Grp 1 (Seq cap_letter (Star (seqs [lit '','', ws_star, cap_letter])))]"

text \<open>\<open>[a.strip() for a in s.split(',') if a.strip()]\<close>\<close>

definition comma_items :: "string \<Rightarrow> string list" where
  "comma_items s = map strip (filter (\<lambda>a. strip a \<noteq> []) (split_on (CHR '','') s))"

definition get_question_type :: "string \<Rightarrow> string" where
  "get_question_type text =
    (if any_search positioneddragdrop_patterns text then ''POSITIONEDDRAGDROP''
     else if any_search positioneddropdown_patterns text then ''POSITIONEDDROPDOWN''
     else if any_search fillintheblank_patterns text then ''FILLINTHEBLANK''
     else if any_search simulation_patterns text then ''SIMULATION''
     else
      (let declared =
             (case re_search type_match_re text of
                None \<Rightarrow> None
              | Some m \<Rightarrow>
                  (let declared_type = upper (group_text 1 m)
                   in if declared_type \<in> set declared_types then Some declared_type else None))
       in case declared of
            Some declared_type \<Rightarrow> declared_type
          | None \<Rightarrow>
             if re_test hotspot_cue_re text then ''HOTSPOT''
             else if re_test dragdrop_cue_re text then ''DRAGDROP''
             else if re_test dropdown_cue_re text then ''DROPDOWN''
             else
              (let options = re_finditer option_start_re text;
                   answer_line = re_search answer_line_re text
               in case answer_line of
                    Some m \<Rightarrow>
                      if options \<noteq> [] then
                        (if length (comma_items (group_text 1 m)) > 1
                         then ''MultipleChoice'' else ''SingleChoice'')
                      else ''SingleChoice''
                  | None \<Rightarrow> ''SingleChoice'')))"

text \<open>\<open>^([A-Z])\.\s+(.*?)$\<close> with MULTILINE\<close>

definition option_re :: re where
  "option_re = seqs [Bol, Grp 1 cap_letter, lit ''.'', ws_plus, Grp 2 (StarL dot), Eol]"

text \<open>
  \<open>extract_options_from_text\<close>: the lettered options, the answer letters and the
  possibly promoted question type.
\<close>

definition extract_options_from_text ::
    "string \<Rightarrow> string \<Rightarrow> (string \<times> string) list \<times> string list \<times> string" where
  "extract_options_from_text text qt =
    (if qt \<in> set [''SingleChoice'', ''MultipleChoice''] then
       (let options = map (\<lambda>m. (group_text 1 m, strip (group_text 2 m))) (re_finditer option_re text)
        in case re_search answer_line_re text of
             None \<Rightarrow> (options, [], qt)
           | Some m \<Rightarrow>
               (let correct_answers = comma_items (group_text 1 m)
                in (options, correct_answers,
                    if length correct_answers > 1 then ''MultipleChoice'' else qt)))
     else ([], [], qt))"

text \<open>\<open>remove_noise\<close>, one definition per substitution, in the order of the source.\<close>

definition drop_question_header :: "string \<Rightarrow> string" where
  "drop_question_header text =
     (let lines = split_on (CHR 0x0A) text
      in join [CHR 0x0A]
           (case lines of
              [] \<Rightarrow> []
            | l # ls \<Rightarrow> if str_in ''QUESTION NO:'' (upper l) then ls else l # ls))"

definition a_to_f :: re where
  "a_to_f = Sym (\<lambda>c. c \<in> set ''ABCDEF'')"

definition nl_or_cr :: re where
  "nl_or_cr = Alt (lit [CHR 0x0A]) (lit [CHR 0x0D])"

definition noise_patterns :: "(re \<times> string) list" where
  "noise_patterns =
     [(seqs [lit ''QuestionDescriptionImage:'', ws_star], ''''),
      (seqs [lit ''<map>'', Star any_char, Eos], ''''),
      (seqs [alts [lit [CHR 0x0A], lit [CHR 0x0D], Bol], a_to_f, lit ''.'', ws_plus, StarL any_char,
             Ahead (alts [seqs [nl_or_cr, a_to_f, lit ''.''], seqs [nl_or_cr, lit ''Answer:''], Eol])],
       ''''),
      (seqs [alts [lit [CHR 0x0A], lit [CHR 0x0D], Bos], liti ''References:'', StarL any_char,
             Ahead (Alt (liti ''QUESTION NO:'') Eos)], ''''),
      (seqs [ws_star,
             Alt (Seq (liti ''Answer:'') (StarL any_char)) (Seq (liti ''Explanation:'') (StarL any_char)),
             Ahead (Alt (liti ''References:'') Eos)], ''''),
      (seqs [lit ''PositionedImage:'', ws_star, Eos], ''''),
      (seqs [lit ''BackgroundImage:'', ws_star], ''''),
      (seqs [ws_star, lit ''JustDropDown:'', ws_star, Eos], ''''),
      (seqs [ws_star, lit ''QuestionOptionImage:'', ws_star, Eos], ''''),
      (seqs [ws_star, lit ''AnswerOptionImage:'', ws_star, Eos], ''''),
      (seqs [ws_star, lit ''QuestionDescriptionImage:'', ws_star, lit ''QuestionDescriptionImage:'',
             ws_star, Eos], ''''),
      (Plus (Sym (\<lambda>c. c = CHR '' '' \<or> c = CHR 0x09)), '' ''),
      (seqs [lit [CHR 0x0A], ws_star, lit [CHR 0x0A]], [CHR 0x0A, CHR 0x0A])]"

definition remove_noise :: "string \<Rightarrow> string" where
  "remove_noise text =
     (if text = [] then []
      else strip (fold (\<lambda>(p, repl) t. re_sub p repl t) noise_patterns (drop_question_header text)))"

section \<open>Grouping state machine (\<open>core/case_study_processor.py\<close>)\<close>

subsection \<open>\<open>CaseStudyState\<close>\<close>

record case_study_state =
  topic_number :: string
  case_study_number :: string
  topic_name :: string
  current_case_study :: "case_study option"
  current_segment_name :: string
  current_segment_contents :: "seg_entry list"
  in_case_study :: bool
  in_case_study_details :: bool
  next_image_is_case_study :: bool

definition initial_state :: case_study_state where
  "initial_state =
     \<lparr>topic_number = [], case_study_number = [], topic_name = [],
      current_case_study = None, current_segment_name = [], current_segment_contents = [],
      in_case_study = False, in_case_study_details = False, next_image_is_case_study = False\<rparr>"

definition reset :: "case_study_state \<Rightarrow> case_study_state" where
  "reset s = initial_state"

definition start_case_study :: "case_study_state \<Rightarrow> case_study_state" where
  "start_case_study s =
     s\<lparr>in_case_study := True,
       current_case_study :=
         Some \<lparr>cs_topic_number = topic_number s, cs_number = case_study_number s,
               cs_topic_name = topic_name s, cs_segments = [], cs_questions = [], cs_images = []\<rparr>\<rparr>"

definition finalize_current_segment :: "case_study_state \<Rightarrow> case_study_state" where
  "finalize_current_segment s =
     (case current_case_study s of
        None \<Rightarrow> s
      | Some cs \<Rightarrow>
          if current_segment_name s \<noteq> [] \<and> current_segment_contents s \<noteq> [] then
            s\<lparr>current_case_study :=
                 Some (cs\<lparr>cs_segments := cs_segments cs
                            @ [\<lparr>seg_name = current_segment_name s,
                                seg_contents = current_segment_contents s\<rparr>]\<rparr>),
              current_segment_contents := []\<rparr>
          else s)"

subsection \<open>\<open>ContentItem\<close> and \<open>BaseContentGrouper\<close>\<close>

definition has_question_start :: "content_item \<Rightarrow> bool" where
  "has_question_start item = str_in ''QUESTION NO:'' (upper (ci_content item))"

definition create_question_from_item :: "content_item \<Rightarrow> question" where
  "create_question_from_item item =
     \<lparr>q_number = get_question_number (ci_content item),
      q_type = get_question_type (ci_content item),
      q_content_items = [item],
      q_text = ci_content item,
      q_images = ci_images item\<rparr>"

subsection \<open>\<open>CaseStudyContentGrouper\<close>\<close>

text \<open>
  The object's fields.  (\<open>self.questions\<close> of the base class is never written by
  this subclass and is left out.)
\<close>

record grouper =
  current_question :: "question option"
  case_studies :: "case_study list"
  standalone_questions :: "question list"
  state :: case_study_state

definition initial_grouper :: grouper where
  "initial_grouper =
     \<lparr>current_question = None, case_studies = [], standalone_questions = [], state = initial_state\<rparr>"

definition add_item_to_current_question :: "content_item \<Rightarrow> grouper \<Rightarrow> grouper" where
  "add_item_to_current_question item g =
     (case current_question g of
        None \<Rightarrow> g
      | Some q \<Rightarrow>
          g\<lparr>current_question :=
              Some (q\<lparr>q_content_items := q_content_items q @ [item],
                      q_text := q_text q @ [CHR 0x0A] @ ci_content item,
                      q_images := q_images q @ ci_images item\<rparr>)\<rparr>)"

text \<open>Adding a question to the nested list of the open case study.\<close>

definition append_question :: "question \<Rightarrow> case_study_state \<Rightarrow> case_study_state" where
  "append_question q s =
     s\<lparr>current_case_study :=
         map_option (\<lambda>cs. cs\<lparr>cs_questions := cs_questions cs @ [q]\<rparr>) (current_case_study s)\<rparr>"

text \<open>\<open>_finalize_current_question\<close> (the override)\<close>

definition finalize_current_question :: "grouper \<Rightarrow> grouper" where
  "finalize_current_question g =
     (case current_question g of
        None \<Rightarrow> g
      | Some q \<Rightarrow>
          (if in_case_study (state g) \<and> current_case_study (state g) \<noteq> None
           then g\<lparr>state := append_question q (state g)\<rparr>
           else g\<lparr>standalone_questions := standalone_questions g @ [q]\<rparr>)
          \<lparr>current_question := None\<rparr>)"

text \<open>
  The block shared by \<open>_finalize_case_study\<close> and \<open>_finalize_processing\<close>:
  \<open>if self.state.current_case_study:\<close> finalize the open segment and append the
  case study to \<open>self.case_studies\<close>.
\<close>

definition push_case_study :: "grouper \<Rightarrow> grouper" where
  "push_case_study g =
     (case current_case_study (state g) of
        None \<Rightarrow> g
      | Some _ \<Rightarrow>
          (let s = finalize_current_segment (state g)
           in g\<lparr>state := s,
                case_studies := case_studies g @ (case current_case_study s of None \<Rightarrow> [] | Some cs \<Rightarrow> [cs])\<rparr>))"

text \<open>\<open>_finalize_case_study\<close>\<close>

definition finalize_case_study :: "grouper \<Rightarrow> grouper" where
  "finalize_case_study g =
    (let g1 =
       (case (current_question g, current_case_study (state g)) of
          (Some q, Some cs) \<Rightarrow>
            if in_case_study (state g) then
              (let question_numbers = map q_number (cs_questions cs)
               in (if q_number q \<notin> set question_numbers
                   then g\<lparr>state := append_question q (state g)\<rparr> else g)
                  \<lparr>current_question := None\<rparr>)
            else g
        | _ \<Rightarrow> g);
         g2 = push_case_study g1
     in g2\<lparr>state := reset (state g2)\<rparr>)"

text \<open>\<open>Topic\s+(\d+),\s+Case\s+Study\s+(\d+)\<close>\<close>

definition topic_re :: re where
  "topic_re =
     seqs [lit ''Topic'', ws_plus, Grp 1 digits, lit '','', ws_plus, lit ''Case'', ws_plus,
           lit ''Study'', ws_plus, Grp 2 digits]"

text \<open>\<open>_extract_topic_name\<close>\<close>

definition extract_topic_name :: "string \<Rightarrow> string" where
  "extract_topic_name text =
     (case split_once ''TopicName:'' text of
        None \<Rightarrow> []
      | Some (_, rest) \<Rightarrow>
          (let topic_content = strip rest
           in strip (if prefix [CHR 0x22] topic_content \<and> endswith topic_content [CHR 0x22]
                     then butlast (tl topic_content) else topic_content)))"

text \<open>\<open>_handle_case_study_heading\<close> and \<open>_handle_case_study_heading_title\<close>\<close>

definition handle_case_study_heading :: "string \<Rightarrow> case_study_state \<Rightarrow> case_study_state" where
  "handle_case_study_heading text s =
     (let s1 = finalize_current_segment s
      in case split_once ''Segment:'' text of
           None \<Rightarrow> s1
         | Some (_, rest) \<Rightarrow> s1\<lparr>current_segment_name := strip rest\<rparr>)"

definition handle_case_study_heading_title :: "string \<Rightarrow> case_study_state \<Rightarrow> case_study_state" where
  "handle_case_study_heading_title text s =
     (case split_once ''Title:'' text of
        None \<Rightarrow> s
      | Some (_, rest) \<Rightarrow>
          s\<lparr>current_segment_contents := current_segment_contents s @ [TitleEntry (strip rest)]\<rparr>)"

text \<open>
  The three handlers return \<open>True\<close> when they have dealt with the item.  Here the
  result is \<open>Some\<close> of the new object state for \<open>True\<close> and \<open>None\<close> for \<open>False\<close>; on
  every path that returns \<open>False\<close> the source has changed nothing.
\<close>

definition handle_case_study_markers :: "content_item \<Rightarrow> string \<Rightarrow> grouper \<Rightarrow> grouper option" where
  "handle_case_study_markers item text g =
    (case re_search topic_re text of
       Some topic_match \<Rightarrow>
         Some (g\<lparr>state := (state g)\<lparr>topic_number := group_text 1 topic_match,
                                     case_study_number := group_text 2 topic_match\<rparr>\<rparr>)
     | None \<Rightarrow>
        if str_in ''TopicName:'' text then
          Some (g\<lparr>state := (state g)\<lparr>topic_name := extract_topic_name text\<rparr>\<rparr>)
        else if str_in ''CaseStudyStart:'' text then
          Some (g\<lparr>state := start_case_study (state g)\<rparr>)
        else if str_in ''CaseStudyEnd:'' text then
          Some (finalize_case_study g)
        else if str_in ''CaseStudyDetailsStart:'' text then
          Some (g\<lparr>state := (state g)\<lparr>in_case_study_details := True\<rparr>\<rparr>)
        else if str_in ''CaseStudyDetailsEnd:'' text then
          Some (g\<lparr>state := (state g)\<lparr>in_case_study_details := False,
                                      next_image_is_case_study := False\<rparr>\<rparr>)
        else if in_case_study_details (state g) \<and> str_in ''Segment:'' text
                \<and> current_case_study (state g) \<noteq> None then
          Some (g\<lparr>state := handle_case_study_heading text (state g)\<rparr>)
        else if in_case_study_details (state g) \<and> str_in ''Title:'' text
                \<and> current_case_study (state g) \<noteq> None \<and> current_segment_name (state g) \<noteq> [] then
          Some (g\<lparr>state := handle_case_study_heading_title text (state g)\<rparr>)
        else if str_in ''CaseStudyImage:'' text then
          Some (g\<lparr>state := (state g)\<lparr>next_image_is_case_study := True\<rparr>\<rparr>)
        else None)"

definition handle_question_markers :: "content_item \<Rightarrow> string \<Rightarrow> grouper \<Rightarrow> grouper option" where
  "handle_question_markers item text g =
     (if has_question_start item then
        Some ((finalize_current_question g)\<lparr>current_question := Some (create_question_from_item item)\<rparr>)
      else None)"

definition handle_case_study_content :: "content_item \<Rightarrow> string \<Rightarrow> grouper \<Rightarrow> grouper option" where
  "handle_case_study_content item text g =
    (let s = state g in
     case current_case_study s of
       None \<Rightarrow> None
     | Some cs \<Rightarrow>
        if next_image_is_case_study s \<and> ci_images item \<noteq> [] then
          Some (g\<lparr>state :=
            s\<lparr>current_case_study := Some (cs\<lparr>cs_images := cs_images cs @ ci_images item\<rparr>),
              current_segment_contents :=
                (if in_case_study_details s \<and> current_segment_name s \<noteq> []
                 then current_segment_contents s @ map (\<lambda>img. ImageEntry img False) (ci_images item)
                 else current_segment_contents s),
              next_image_is_case_study := False\<rparr>\<rparr>)
        else if in_case_study_details s then
          (if current_segment_name s \<noteq> [] then
             Some (if strip text \<noteq> []
                   then g\<lparr>state := s\<lparr>current_segment_contents :=
                                        current_segment_contents s @ [TextEntry (strip text)]\<rparr>\<rparr>
                   else g)
           else if strip text \<noteq> [] then
             Some (g\<lparr>state := s\<lparr>current_segment_name := ''Introduction'',
                                 current_segment_contents :=
                                   current_segment_contents s @ [TextEntry (strip text)]\<rparr>\<rparr>)
           else None)
        else None)"

text \<open>\<open>_process_single_item\<close>\<close>

definition process_single_item :: "content_item \<Rightarrow> grouper \<Rightarrow> grouper" where
  "process_single_item item g =
    (let text = ci_content item in
     case handle_case_study_markers item text g of
       Some g' \<Rightarrow> g'
     | None \<Rightarrow>
        (case handle_question_markers item text g of
           Some g' \<Rightarrow> g'
         | None \<Rightarrow>
            (case handle_case_study_content item text g of
               Some g' \<Rightarrow> g'
             | None \<Rightarrow>
                if current_question g \<noteq> None then add_item_to_current_question item g else g)))"

text \<open>\<open>_finalize_processing\<close>\<close>

definition finalize_processing :: "grouper \<Rightarrow> grouper" where
  "finalize_processing g =
    (let g1 =
       (case current_question g of
          None \<Rightarrow> g
        | Some q \<Rightarrow>
            if in_case_study (state g) \<and> current_case_study (state g) \<noteq> None
            then g\<lparr>state := append_question q (state g)\<rparr>
            else g\<lparr>standalone_questions := standalone_questions g @ [q]\<rparr>)
     in push_case_study g1)"

text \<open>The \<open>for\<close> loop of \<open>process_content_items\<close>, from a given object state.\<close>

definition process_items :: "content_item list \<Rightarrow> grouper \<Rightarrow> grouper" where
  "process_items content_items g = fold process_single_item content_items g"

text \<open>\<open>process_content_items\<close> on a fresh grouper: \<open>(standalone_questions, case_studies)\<close>.\<close>

definition process_content_items :: "content_item list \<Rightarrow> question list \<times> case_study list" where
  "process_content_items content_items =
     (let g = finalize_processing (process_items content_items initial_grouper)
      in (standalone_questions g, case_studies g))"

text \<open>A text paragraph without frames, as the extractor yields it.\<close>

definition text_unit :: "string \<Rightarrow> content_item" where
  "text_unit s = \<lparr>ci_type = ''text'', ci_content = s, ci_frame_refs = [], ci_images = []\<rparr>"

text \<open>
  A unit matches a marker of the state machine when one of the tests of
  \<open>_handle_case_study_markers\<close> or \<open>has_question_start\<close> succeeds on its text
  (whatever the state).
\<close>

definition matches_case_study_marker :: "string \<Rightarrow> bool" where
  "matches_case_study_marker text =
     (re_test topic_re text \<or> str_in ''TopicName:'' text \<or> str_in ''CaseStudyStart:'' text
      \<or> str_in ''CaseStudyEnd:'' text \<or> str_in ''CaseStudyDetailsStart:'' text
      \<or> str_in ''CaseStudyDetailsEnd:'' text \<or> str_in ''Segment:'' text \<or> str_in ''Title:'' text
      \<or> str_in ''CaseStudyImage:'' text)"

definition matches_marker :: "string \<Rightarrow> bool" where
  "matches_marker text =
     (matches_case_study_marker text \<or> str_in ''QUESTION NO:'' (upper text))"








section \<open>Image classifier (\<open>identify_image_types\<close> in \<open>image_processing/image_processor.py\<close>)\<close>

text \<open>
  The \<open>if\<close>/\<open>elif\<close> chain over the role markers: the first marker of the chain that
  occurs in the unit's text sets the current type, otherwise it stays as it was.
\<close>

definition next_type :: "string \<Rightarrow> string option \<Rightarrow> string option" where
  "next_type content current_type =
     (if str_in ''QuestionOptionImage:'' content then Some ''question''
      else if str_in ''AnswerOptionImage:'' content then Some ''answer''
      else if str_in ''QuestionDescriptionImage:'' content then Some ''description''
      else if str_in ''JustDropDown:'' content then Some ''justdropdown''
      else if str_in ''PositionedImage:'' content then Some ''positioned''
      else if str_in ''BackgroundImage:'' content then Some ''background''
      else if str_in ''JustCoordinates:'' content then Some ''just_coordinates''
      else current_type)"

text \<open>
  The loop state is the dictionary \<open>image_types\<close>, from image path to type, and
  \<open>current_type\<close>.  A unit's images are entered under the current type when one is
  set.
\<close>

definition assign_images :: "string \<Rightarrow> image list \<Rightarrow> (string \<rightharpoonup> string) \<Rightarrow> (string \<rightharpoonup> string)" where
  "assign_images t imgs image_types = fold (\<lambda>img m. m(img_path img \<mapsto> t)) imgs image_types"

definition identify_step ::
    "content_item \<Rightarrow> (string \<rightharpoonup> string) \<times> string option \<Rightarrow> (string \<rightharpoonup> string) \<times> string option" where
  "identify_step item st =
     (let current_type = next_type (strip (ci_content item)) (snd st)
      in (case current_type of
            None \<Rightarrow> fst st
          | Some t \<Rightarrow> assign_images t (ci_images item) (fst st),
          current_type))"

definition identify_image_types :: "content_item list \<Rightarrow> (string \<rightharpoonup> string)" where
  "identify_image_types content_items = fst (fold identify_step content_items (Map.empty, None))"

text \<open>Wording of the claims: a unit without role marker, and an image path unused by units.\<close>

definition unmarked :: "content_item \<Rightarrow> bool" where
  "unmarked item = (next_type (strip (ci_content item)) None = None)"

definition path_unused :: "image \<Rightarrow> content_item list \<Rightarrow> bool" where
  "path_unused img items = (img_path img \<notin> img_path ` set (concat (map ci_images items)))"

text \<open>Units used below: a picture before any marker, a marker, a picture after it.\<close>

definition picture :: "string \<Rightarrow> image" where
  "picture name = \<lparr>img_data = name, img_format = ''png'', img_path = ''Pictures/'' @ name @ ''.png''\<rparr>"

definition picture_unit :: "string \<Rightarrow> string \<Rightarrow> content_item" where
  "picture_unit s name =
     \<lparr>ci_type = ''text'', ci_content = s, ci_frame_refs = [''frame-'' @ name],
      ci_images = [picture name]\<rparr>"

definition sticky_units :: "content_item list" where
  "sticky_units =
     [picture_unit ''Study the figure'' ''a'', text_unit ''QuestionOptionImage:'',
      picture_unit '''' ''b'', picture_unit ''AnswerOptionImage:'' ''c'']"

definition reused_picture_units :: "content_item list" where
  "reused_picture_units =
     [picture_unit ''Study the figure'' ''a'', picture_unit ''QuestionOptionImage:'' ''a'']"

section \<open>Output tree and the common builder (\<open>questions/question_base.py\<close>)\<close>

text \<open>
  An element of the output tree: tag, attributes, text and children.  The text of
  an image node is the base64 form of the image bytes, kept as \<open>Base64 bytes\<close>.
\<close>

datatype xtext = NoText | Text string | Base64 bytes

datatype xml = Element string "(string \<times> string) list" xtext "xml list"

definition leaf :: "string \<Rightarrow> string \<Rightarrow> xml" where
  "leaf tag s = Element tag [] (Text s) []"

text \<open>A \<open>Contents\<close> node with its \<open>ContentType\<close> and one payload child.\<close>

definition contents_node :: "string \<Rightarrow> string \<Rightarrow> string \<Rightarrow> xml" where
  "contents_node content_type tag s =
     Element ''Contents'' [] NoText [leaf ''ContentType'' content_type, leaf tag s]"

text \<open>\<open>_add_basic_elements\<close>\<close>

definition add_basic_elements :: "string \<Rightarrow> question \<Rightarrow> xml list" where
  "add_basic_elements kind q =
     [leaf ''Kind'' kind, leaf ''DisplayKind'' kind, leaf ''QuestionNo'' (py_str (q_number q))]"

text \<open>\<open>_add_image_content\<close>\<close>

definition add_image_content :: "image \<Rightarrow> bool \<Rightarrow> bool \<Rightarrow> xml" where
  "add_image_content img is_answer is_background =
     Element ''Contents'' [] NoText
       [leaf ''ContentType'' (if is_background then ''BImage'' else ''Image''),
        Element ''Image'' [] (Base64 (img_data img)) [],
        leaf ''IsAnswerImage'' (if is_answer then ''true'' else ''false'')]"

text \<open>
  \<open>_extract_explanation\<close>: the lines after \<open>Explanation:\<close> that are not empty and
  carry no URL cue (\<open>https?://|https?:|www\.\<close>).
\<close>

definition url_cue_re :: re where
  "url_cue_re = alts
     [seqs [lit ''http'', Opt (lit ''s''), lit ''://''],
      seqs [lit ''http'', Opt (lit ''s''), lit '':''],
      lit ''www.'']"

definition extract_explanation :: "question \<Rightarrow> string" where
  "extract_explanation q =
     (case split_once ''Explanation:'' (q_text q) of
        None \<Rightarrow> []
      | Some (_, rest) \<Rightarrow>
          join [CHR 0x0A]
            (filter (\<lambda>line. line \<noteq> [] \<and> \<not> re_test url_cue_re line)
               (map strip (split_on (CHR 0x0A) (strip rest)))))"

text \<open>
  \<open>for x in xs: if x not in unique: unique.append(x)\<close>: duplicates removed, first
  occurrences kept in order.
\<close>

definition unique_in_order :: "'a list \<Rightarrow> 'a list" where
  "unique_in_order xs = fold (\<lambda>x unique. if x \<in> set unique then unique else unique @ [x]) xs []"

text \<open>
  The URL patterns: \<open>https://[^\s\)]+\<close>, \<open>http://[^\s\)]+\<close>, \<open>https:[^\s\)]+\<close> and
  \<open>www\.[^\s\)]+\.[a-zA-Z]{2,}\<close>.
\<close>

definition url_char :: re where
  "url_char = Sym (\<lambda>c. \<not> is_space c \<and> c \<noteq> CHR '')'')"

definition letter :: re where
  "letter = Sym (\<lambda>c. is_lower c \<or> is_upper c)"

definition https_slash_re :: re where
  "https_slash_re = seqs [lit ''https://'', Plus url_char]"

definition http_slash_re :: re where
  "http_slash_re = seqs [lit ''http://'', Plus url_char]"

definition https_colon_re :: re where
  "https_colon_re = seqs [lit ''https:'', Plus url_char]"

definition www_re :: re where
  "www_re = seqs [lit ''www.'', Plus url_char, lit ''.'', letter, letter, Star letter]"

text \<open>\<open>_extract_references\<close>: all matches of the four patterns in turn, first occurrences kept.\<close>

definition extract_references :: "question \<Rightarrow> string list" where
  "extract_references q =
     (let all_text =
            fold (\<lambda>item t. if strip (ci_content item) \<noteq> [] then t @ '' '' @ ci_content item else t)
              (q_content_items q) (q_text q);
          all_urls =
            concat (map (\<lambda>pattern. map matched (re_finditer pattern all_text))
                      [https_slash_re, http_slash_re, https_colon_re, www_re])
      in unique_in_order all_urls)"

text \<open>
  \<open>_is_answer_content\<close>.  The three URL patterns tested here are
  \<open>https://[^\s\)]+\<close>, \<open>https:[^\s\)]+\<close> and \<open>www\.[^\s\)]+\.[a-zA-Z]{2,}\<close>; \<open>re.match\<close> with
  \<open>^[A-Z]\.\<close> looks at the start of the text only.
\<close>

definition is_answer_content :: "string \<Rightarrow> bool" where
  "is_answer_content text =
     (let text_lower = strip (lower text) in
      prefix ''answer:'' text_lower \<or> str_in ''choices'' text_lower
      \<or> rmatch (seqs [Bos, cap_letter, lit ''.'']) ([], strip text, []) \<noteq> []
      \<or> prefix ''explanation:'' text_lower
      \<or> list_ex (\<lambda>pattern. re_test pattern text) [https_slash_re, https_colon_re, www_re])"

text \<open>\<open>_is_question_type_duplicate\<close>\<close>

definition question_type_names :: "string list" where
  "question_type_names =
     [''FillInTheBlank'', ''MultipleChoice'', ''TrueFalse'', ''SingleChoice'', ''MultipleSelect'',
      ''DropDown'', ''DragDrop'', ''Hotspot'', ''Simulation'', ''DROPDOWN'', ''DRAGDROP'',
      ''HOTSPOT'', ''SIMULATION'', ''POSITIONEDDROPDOWN'', ''PositionedDropDown'',
      ''POSITIONEDDRAGDROP'', ''POSITIONEDDragDrop'']"

definition is_question_type_duplicate :: "string \<Rightarrow> bool" where
  "is_question_type_duplicate text = (strip text \<in> set question_type_names)"

text \<open>\<open>_is_explanation_duplicate\<close>\<close>

definition is_explanation_duplicate :: "question \<Rightarrow> string \<Rightarrow> bool" where
  "is_explanation_duplicate q text =
     (let explanation_text = extract_explanation q
      in explanation_text \<noteq> [] \<and> str_in (strip text) explanation_text)"

text \<open>\<open>_replace_blanks_with_keyword\<close>: \<open>_{2,}\<close> becomes \<open>[blank]\<close>.\<close>

definition replace_blanks_with_keyword :: "string \<Rightarrow> string" where
  "replace_blanks_with_keyword text = re_sub (seqs [lit ''__'', Star (lit ''_'')]) ''[blank]'' text"

text \<open>
  \<open>_clean_item_text\<close>.  The marker pattern is
  \<open>(QuestionDescriptionImage:|BackgroundImage:|PositionedImage:|QuestionOptionImage:|AnswerOptionImage:|JustDropDown:|CaseStudyImage:)\s*\<close>,
  the header pattern \<open>^\s*QUESTION NO:\s*\d+.*?\n?\<close> with IGNORECASE.
\<close>

definition image_marker_re :: re where
  "image_marker_re =
     seqs [alts [lit ''QuestionDescriptionImage:'', lit ''BackgroundImage:'', lit ''PositionedImage:'',
                 lit ''QuestionOptionImage:'', lit ''AnswerOptionImage:'', lit ''JustDropDown:'',
                 lit ''CaseStudyImage:''],
           ws_star]"

definition question_header_re :: re where
  "question_header_re =
     seqs [Bos, ws_star, liti ''QUESTION NO:'', ws_star, digits, StarL dot, Opt (lit [CHR 0x0A])]"

definition clean_item_text :: "question \<Rightarrow> string \<Rightarrow> string" where
  "clean_item_text q text0 =
     (let text1 = re_sub image_marker_re [] text0;
          text2 = re_sub question_header_re [] text1;
          text3 = strip (re_sub ws_plus '' '' text2)
      in if is_answer_content text3 then []
         else if is_question_type_duplicate text3 then []
         else if is_explanation_duplicate q text3 then []
         else replace_blanks_with_keyword text3)"

text \<open>
  \<open>image_types.get(path, "description")\<close>: the role under which the builder
  consumes an image.
\<close>

definition consumed_role :: "(string \<rightharpoonup> string) \<Rightarrow> image \<Rightarrow> string" where
  "consumed_role image_types img =
     (case image_types (img_path img) of None \<Rightarrow> ''description'' | Some t \<Rightarrow> t)"

text \<open>The nodes one content item contributes in \<open>_add_sequential_content\<close>.\<close>

definition item_image_nodes :: "(string \<rightharpoonup> string) \<Rightarrow> image \<Rightarrow> xml list" where
  "item_image_nodes image_types img =
     (let img_type = consumed_role image_types img
      in if img_type = ''description'' then [add_image_content img False False]
         else if img_type = ''background'' then [add_image_content img False True]
         else [])"

definition item_nodes :: "question \<Rightarrow> (string \<rightharpoonup> string) \<Rightarrow> content_item \<Rightarrow> xml list" where
  "item_nodes q image_types item =
     (let item_text = strip (ci_content item);
          clean_text = (if item_text \<noteq> [] then clean_item_text q item_text else [])
      in (if clean_text \<noteq> [] then [contents_node ''Text'' ''Text'' clean_text] else [])
         @ concat (map (item_image_nodes image_types) (ci_images item)))"

text \<open>
  The fallback for a question without content items: \<open>_add_description_contents\<close>
  (the paragraphs of \<open>remove_noise(self.text)\<close>) and \<open>_add_description_images\<close>.
\<close>

definition nonempty_lines :: "string \<Rightarrow> string list" where
  "nonempty_lines s = filter (\<lambda>p. p \<noteq> []) (map strip (split_on (CHR 0x0A) s))"

definition add_description_contents :: "question \<Rightarrow> xml list" where
  "add_description_contents q =
     map (contents_node ''Text'' ''Text'') (nonempty_lines (remove_noise (q_text q)))"

definition add_description_images :: "question \<Rightarrow> xml list" where
  "add_description_images q =
     (let image_types = identify_image_types (q_content_items q)
      in map (\<lambda>img. add_image_content img False False)
           (filter (\<lambda>img. image_types (img_path img) = Some ''description'') (q_images q)))"

text \<open>\<open>_add_sequential_content\<close>\<close>

definition add_sequential_content :: "question \<Rightarrow> xml list" where
  "add_sequential_content q =
     (if q_content_items q = [] then add_description_contents q @ add_description_images q
      else
        (let image_types = identify_image_types (q_content_items q)
         in concat (map (item_nodes q image_types) (q_content_items q))))"

text \<open>\<open>_add_id_element\<close>\<close>

definition add_id_element :: "xml list" where
  "add_id_element = [leaf ''Id'' []]"

text \<open>
  \<open>_add_explanation\<close>.  A paragraph is written unless it contains \<open>References:\<close> or
  matches \<open>https://[^\s\)]+|https:[^\s\)]+|www\.[^\s\)]+\.[a-zA-Z]{2,}\<close>.
\<close>

definition add_explanation :: "question \<Rightarrow> xml list" where
  "add_explanation q =
     (let explanation_text = extract_explanation q;
          references = extract_references q
      in if explanation_text \<noteq> [] \<or> references \<noteq> [] then
           [Element ''Explanation'' [] NoText
              (map (contents_node ''Text'' ''Text'')
                 (filter (\<lambda>paragraph. \<not> str_in ''References:'' (strip paragraph)
                            \<and> \<not> re_test (alts [https_slash_re, https_colon_re, www_re]) paragraph)
                    (nonempty_lines explanation_text))
               @ map (contents_node ''Link'' ''Link'') references)]
         else [])"

text \<open>
  \<open>build_xml\<close>: basic elements, sequential content, the elements of the question
  class, the identifier and the explanation, in this order under \<open>Question\<close>.
\<close>

definition build_xml :: "string \<Rightarrow> xml list \<Rightarrow> question \<Rightarrow> xml" where
  "build_xml kind question_specific_elements q =
     Element ''Question'' [] NoText
       (add_basic_elements kind q @ add_sequential_content q @ question_specific_elements
        @ add_id_element @ add_explanation q)"

section \<open>Text-based questions (\<open>TextBasedQuestion\<close> in \<open>questions/question_types.py\<close>)\<close>

text \<open>
  \<open>_extract_options_from_content_items\<close>: an item whose stripped text starts with
  \<open>[A-Z]\.\<close> gives the letter and the text after \<open>^[A-Z]\.\s*\<close>.
\<close>

definition option_prefix_re :: re where
  "option_prefix_re = seqs [Bos, cap_letter, lit ''.'']"

definition extract_options_from_content_items :: "question \<Rightarrow> (string \<times> string) list" where
  "extract_options_from_content_items q =
     concat (map (\<lambda>item.
        (let item_text = strip (ci_content item)
         in if rmatch option_prefix_re ([], item_text, []) \<noteq> []
            then [(take 1 item_text, strip (re_sub (seqs [Bos, cap_letter, lit ''.'', ws_star]) [] item_text))]
            else []))
       (q_content_items q))"

text \<open>\<open>_extract_answers_from_text\<close>: the letters \<open>\b[A-Z]\b\<close> after \<open>Answer:\<close>.\<close>

definition single_letter_re :: re where
  "single_letter_re = seqs [WordB, cap_letter, WordB]"

definition extract_answers_from_text :: "question \<Rightarrow> string list" where
  "extract_answers_from_text q =
     (case split_once ''Answer:'' (q_text q) of
        None \<Rightarrow> []
      | Some (_, answer_part) \<Rightarrow> map matched (re_finditer single_letter_re answer_part))
     @ concat (map (\<lambda>item.
          (let item_text = strip (ci_content item)
           in if prefix ''answer:'' (lower item_text)
              then map matched (re_finditer single_letter_re item_text) else []))
         (q_content_items q))"

text \<open>\<open>_extract_text_options\<close>\<close>

definition extract_text_options :: "question \<Rightarrow> (string \<times> string) list \<times> string list" where
  "extract_text_options q =
     (let (text_options, text_answers, _) = extract_options_from_text (q_text q) (q_type q);
          (options, correct_answers) =
             (if text_options \<noteq> [] then (text_options, text_answers) else ([], []));
          (options, correct_answers) =
             (if options = [] \<and> q_content_items q \<noteq> []
              then (extract_options_from_content_items q, extract_answers_from_text q)
              else (options, correct_answers))
      in (options, unique_in_order correct_answers))"

text \<open>\<open>_add_text_choices_to_xml\<close>\<close>

definition add_text_choices_to_xml :: "(string \<times> string) list \<Rightarrow> string list \<Rightarrow> xml list" where
  "add_text_choices_to_xml options correct_answers =
     map (\<lambda>(letter, opt_text).
            Element ''Choices'' [] NoText
              [leaf ''Number'' letter, contents_node ''Text'' ''Text'' opt_text])
         options
     @ (if correct_answers \<noteq> []
        then [Element ''Answer'' [] NoText (map (leaf ''Choices'') correct_answers)]
        else [])"

text \<open>\<open>TextBasedQuestion(question_data).build_xml()\<close>; \<open>get_xml_kind\<close> is the type.\<close>

definition build_text_based :: "question \<Rightarrow> xml" where
  "build_text_based q =
     (let (options, correct_answers) = extract_text_options q
      in build_xml (q_type q) (add_text_choices_to_xml options correct_answers) q)"

section \<open>Builder dispatch (\<open>questions/question_processors.py\<close>, \<open>question_factory.py\<close>)\<close>

text \<open>The result dictionaries \<open>{"number", "type", "element"}\<close>.\<close>

record result =
  r_number :: "string option"
  r_type :: string
  r_element :: xml

text \<open>
  The type update for text-based questions at the head of the \<open>try\<close> block:
  \<open>q_type\<close> becomes the type returned by \<open>extract_options_from_text\<close>, and the
  question dictionary is updated with it.
\<close>

definition promoted_type :: "question \<Rightarrow> string" where
  "promoted_type question_data =
     (if q_type question_data \<in> set [''SingleChoice'', ''MultipleChoice'']
      then (case extract_options_from_text (q_text question_data) (q_type question_data) of
              (options, correct_answers, updated_q_type) \<Rightarrow> updated_q_type)
      else q_type question_data)"

definition promote :: "question \<Rightarrow> question" where
  "promote question_data = question_data\<lparr>q_type := promoted_type question_data\<rparr>"

text \<open>The fallback structure of the \<open>except\<close> branch.\<close>

definition fallback_elem :: "string option \<Rightarrow> string \<Rightarrow> string \<Rightarrow> xml" where
  "fallback_elem number qtype e =
     Element ''Question'' [] NoText
       [leaf ''QuestionNo'' (py_str number), leaf ''Kind'' qtype, leaf ''Error'' e]"

text \<open>
  The body of the loop.  \<open>build\<close> stands for
  \<open>QuestionFactory.create_question(question_data).build_xml()\<close>: \<open>Inr\<close> of the built
  element, or \<open>Inl\<close> of \<open>str(e)\<close> for an exception \<open>e\<close> raised on the way.
\<close>

definition process_question :: "(question \<Rightarrow> string + xml) \<Rightarrow> question \<Rightarrow> result" where
  "process_question build question_data =
     (let number = q_number question_data;
          qtype = promoted_type question_data
      in case build (promote question_data) of
           Inr xml_element \<Rightarrow>
             \<lparr>r_number = number, r_type = qtype, r_element = xml_element\<rparr>
         | Inl e \<Rightarrow>
             \<lparr>r_number = number, r_type = qtype, r_element = fallback_elem number qtype e\<rparr>)"

text \<open>\<open>process_questions\<close>: the loop appends one result per question.\<close>

definition process_questions :: "(question \<Rightarrow> string + xml) \<Rightarrow> question list \<Rightarrow> result list" where
  "process_questions build questions =
     fold (\<lambda>question_data results. results @ [process_question build question_data]) questions []"

text \<open>
  \<open>QuestionFactory.create_question\<close> followed by \<open>build_xml\<close>.  The question classes
  other than \<open>TextBasedQuestion\<close> are passed in as their builders.
\<close>

record class_builders =
  hotspot_question :: "question \<Rightarrow> string + xml"
  dragdrop_question :: "question \<Rightarrow> string + xml"
  dropdown_question :: "question \<Rightarrow> string + xml"
  fillintheblank_question :: "question \<Rightarrow> string + xml"
  positioneddropdown_question :: "question \<Rightarrow> string + xml"
  positioneddragdrop_question :: "question \<Rightarrow> string + xml"
  simulation_question :: "question \<Rightarrow> string + xml"

definition build_question :: "class_builders \<Rightarrow> question \<Rightarrow> string + xml" where
  "build_question classes question_data =
     (let qt = upper (q_type question_data) in
      if qt = ''HOTSPOT'' then hotspot_question classes question_data
      else if qt = ''DRAGDROP'' then dragdrop_question classes question_data
      else if qt = ''DROPDOWN'' then dropdown_question classes question_data
      else if qt = ''FILLINTHEBLANK'' then fillintheblank_question classes question_data
      else if qt = ''POSITIONEDDROPDOWN'' then positioneddropdown_question classes question_data
      else if qt = ''POSITIONEDDRAGDROP'' then positioneddragdrop_question classes question_data
      else if qt = ''SIMULATION'' then simulation_question classes question_data
      else if qt \<in> set [''SINGLECHOICE'', ''MULTIPLECHOICE'', ''RADIOBUTTON'']
        then Inr (build_text_based question_data)
      else Inr (build_text_based question_data))"



definition never_failing :: "question \<Rightarrow> string + xml" where
  "never_failing q = Inr (Element ''Question'' [] NoText (add_basic_elements (q_type q) q))"

text \<open>The four text units of the end-to-end scenario.\<close>

definition scenario_units :: "content_item list" where
  "scenario_units =
     map text_unit [''QUESTION NO: 1 SingleChoice'', ''A. Paris'', ''B. London'', ''Answer: A'']"

definition scenario_question :: question where
  "scenario_question =
     \<lparr>q_number = Some ''1'', q_type = ''SingleChoice'', q_content_items = scenario_units,
      q_text = ''QUESTION NO: 1 SingleChoice\<newline>A. Paris\<newline>B. London\<newline>Answer: A'',
      q_images = []\<rparr>"

definition scenario_node :: xml where
  "scenario_node =
     Element ''Question'' [] NoText
       [leaf ''Kind'' ''SingleChoice'',
        leaf ''DisplayKind'' ''SingleChoice'',
        leaf ''QuestionNo'' ''1'',
        Element ''Choices'' [] NoText
          [leaf ''Number'' ''A'',
           Element ''Contents'' [] NoText [leaf ''ContentType'' ''Text'', leaf ''Text'' ''Paris'']],
        Element ''Choices'' [] NoText
          [leaf ''Number'' ''B'',
           Element ''Contents'' [] NoText [leaf ''ContentType'' ''Text'', leaf ''Text'' ''London'']],
        Element ''Answer'' [] NoText [leaf ''Choices'' ''A''],
        leaf ''Id'' []]"

text \<open>The children of a node with a given tag.\<close>

fun tag_of :: "xml \<Rightarrow> string" where
  "tag_of (Element tag attrs txt children) = tag"

fun children_of :: "xml \<Rightarrow> xml list" where
  "children_of (Element tag attrs txt children) = children"

definition children_tagged :: "string \<Rightarrow> xml \<Rightarrow> xml list" where
  "children_tagged tag node = filter (\<lambda>c. tag_of c = tag) (children_of node)"


section \<open>Document assembler (\<open>output/xml_generator.py\<close>)\<close>

subsection \<open>Exceptions and sorting\<close>

text \<open>
  The exceptions that leave \<open>generate_xml_output\<close>: \<open>TypeError\<close> from \<open><\<close> between an
  \<open>int\<close> and a \<open>str\<close>, \<open>AttributeError\<close> from \<open>None.isdigit()\<close>, and \<open>ExpatError\<close> from
  \<open>minidom.parseString\<close>.
\<close>

datatype py_error = TypeError | AttributeError | ExpatError

fun and_then :: "py_error + 'a \<Rightarrow> ('a \<Rightarrow> py_error + 'b) \<Rightarrow> py_error + 'b" where
  "and_then (Inl e) f = Inl e"
| "and_then (Inr x) f = f x"

fun try_map :: "('a \<Rightarrow> py_error + 'b) \<Rightarrow> 'a list \<Rightarrow> py_error + 'b list" where
  "try_map f [] = Inr []"
| "try_map f (x # xs) = and_then (f x) (\<lambda>y. and_then (try_map f xs) (\<lambda>ys. Inr (y # ys)))"

text \<open>\<open>s.isdigit()\<close> and \<open>int(s)\<close> for a string of ASCII digits.\<close>

definition isdigit :: "string \<Rightarrow> bool" where
  "isdigit s = (s \<noteq> [] \<and> list_all is_digit s)"

definition py_int :: "string \<Rightarrow> int" where
  "py_int s = foldl (\<lambda>n c. 10 * n + (of_char c - 48)) 0 s"

text \<open>
  A sort key is an \<open>int\<close> or a \<open>str\<close>:
  \<open>int(t) if t.isdigit() else t\<close>.
\<close>

datatype sort_key = IntKey int | StrKey string

definition token_key :: "string \<Rightarrow> sort_key" where
  "token_key t = (if isdigit t then IntKey (py_int t) else StrKey t)"

text \<open>\<open>a < b\<close> on strings (by code point) and on keys.\<close>

fun str_lt :: "string \<Rightarrow> string \<Rightarrow> bool" where
  "str_lt [] [] = False"
| "str_lt [] (y # ys) = True"
| "str_lt (x # xs) [] = False"
| "str_lt (x # xs) (y # ys) = (if x = y then str_lt xs ys else (of_char x :: nat) < of_char y)"

fun key_lt :: "sort_key \<Rightarrow> sort_key \<Rightarrow> py_error + bool" where
  "key_lt (IntKey a) (IntKey b) = Inr (a < b)"
| "key_lt (StrKey a) (StrKey b) = Inr (str_lt a b)"
| "key_lt (IntKey a) (StrKey b) = Inl TypeError"
| "key_lt (StrKey a) (IntKey b) = Inl TypeError"

text \<open>
  \<open><\<close> on pairs of keys: the first components that differ (by \<open>==\<close>, which never
  raises) are compared with \<open><\<close>.
\<close>

fun pair_lt :: "sort_key \<times> sort_key \<Rightarrow> sort_key \<times> sort_key \<Rightarrow> py_error + bool" where
  "pair_lt (a1, a2) (b1, b2) =
     (if a1 \<noteq> b1 then key_lt a1 b1 else if a2 \<noteq> b2 then key_lt a2 b2 else Inr False)"

text \<open>
  \<open>xs.sort(key=f)\<close>: the keys are computed first, then the list is sorted stably
  with \<open><\<close> on the keys, and an exception raised by \<open>f\<close> or by \<open><\<close> ends the sort.
  The sort is an insertion sort: each element in turn is compared with the
  elements already placed, from the greatest down, and put after the first one it
  is not less than; on a list \<open>[a, b]\<close> the one comparison is \<open>f(b) < f(a)\<close>, as in
  CPython.  The elements already placed are kept greatest first.
\<close>

fun insert_by :: "('k \<Rightarrow> 'k \<Rightarrow> py_error + bool) \<Rightarrow> 'k \<times> 'a \<Rightarrow> ('k \<times> 'a) list
    \<Rightarrow> py_error + ('k \<times> 'a) list" where
  "insert_by lt x [] = Inr [x]"
| "insert_by lt x (y # ys) =
     and_then (lt (fst x) (fst y))
       (\<lambda>less. if less then and_then (insert_by lt x ys) (\<lambda>zs. Inr (y # zs))
               else Inr (x # y # ys))"

definition py_sort :: "('k \<Rightarrow> 'k \<Rightarrow> py_error + bool) \<Rightarrow> ('a \<Rightarrow> py_error + 'k) \<Rightarrow> 'a list
    \<Rightarrow> py_error + 'a list" where
  "py_sort lt key xs =
     and_then (try_map (\<lambda>x. and_then (key x) (\<lambda>k. Inr (k, x))) xs)
       (\<lambda>keyed. and_then (fold (\<lambda>x placed. and_then placed (insert_by lt x)) keyed (Inr []))
          (\<lambda>placed. Inr (map snd (rev placed))))"

text \<open>The two sorts of \<open>generate_xml_output\<close>.\<close>

definition case_study_key :: "case_study \<Rightarrow> sort_key \<times> sort_key" where
  "case_study_key x = (token_key (cs_topic_number x), token_key (cs_number x))"

definition sort_case_studies :: "case_study list \<Rightarrow> py_error + case_study list" where
  "sort_case_studies studies = py_sort pair_lt (\<lambda>x. Inr (case_study_key x)) studies"

definition result_key :: "result \<Rightarrow> py_error + sort_key" where
  "result_key x = (case r_number x of None \<Rightarrow> Inl AttributeError | Some n \<Rightarrow> Inr (token_key n))"

definition sort_results :: "result list \<Rightarrow> py_error + result list" where
  "sort_results results = py_sort key_lt result_key results"

subsection \<open>\<open>build_xml_for_case_study\<close> (\<open>questions/question_processors.py\<close>)\<close>

fun segment_content :: "seg_entry \<Rightarrow> xml" where
  "segment_content (TextEntry s) = contents_node ''Text'' ''Text'' s"
| "segment_content (TitleEntry s) = contents_node ''Title'' ''Text'' s"
| "segment_content (ImageEntry img is_answer) =
     Element ''Contents'' [] NoText
       [leaf ''ContentType'' ''Image'',
        Element ''Image'' [] (Base64 (img_data img)) [],
        leaf ''IsAnswerImage'' ''false'']"

definition build_xml_for_case_study :: "case_study \<Rightarrow> xml" where
  "build_xml_for_case_study cs =
     Element ''CaseStudy'' [] NoText
       ([leaf ''Number'' (cs_topic_number cs), leaf ''Name'' (cs_topic_name cs)]
        @ map (\<lambda>seg. Element ''Segments'' [] NoText
                        (leaf ''Name'' (seg_name seg) # map segment_content (seg_contents seg)))
            (cs_segments cs))"

subsection \<open>Serialization\<close>

text \<open>\<open>s.replace(old, new)\<close>\<close>

function replace_from :: "string \<Rightarrow> string \<Rightarrow> string \<Rightarrow> string" where
  "replace_from old new [] = []"
| "replace_from old new (c # cs) =
     (if old \<noteq> [] \<and> prefix old (c # cs)
      then new @ replace_from old new (drop (length old) (c # cs))
      else c # replace_from old new cs)"
  by pat_completeness auto

termination
  by (relation "measure (\<lambda>(old, new, s). length s)") (auto simp: neq_Nil_conv)

definition replace :: "string \<Rightarrow> string \<Rightarrow> string \<Rightarrow> string" where
  "replace old new s =
     (if old = [] then new @ concat (map (\<lambda>c. c # new) s) else replace_from old new s)"

text \<open>\<open>base64.b64encode(data).decode('utf-8')\<close>\<close>

definition b64_char :: "nat \<Rightarrow> char" where
  "b64_char n =
     ''ABCDEFGHIJKLMNOPQRSTUVWXYZabcdefghijklmnopqrstuvwxyz0123456789+/'' ! (n mod 64)"

fun b64encode :: "bytes \<Rightarrow> string" where
  "b64encode (a # b # c # rest) =
     [b64_char (of_char a div 4), b64_char (of_char a mod 4 * 16 + of_char b div 16),
      b64_char (of_char b mod 16 * 4 + of_char c div 64), b64_char (of_char c mod 64)]
     @ b64encode rest"
| "b64encode [a, b] =
     [b64_char (of_char a div 4), b64_char (of_char a mod 4 * 16 + of_char b div 16),
      b64_char (of_char b mod 16 * 4), CHR ''='']"
| "b64encode [a] =
     [b64_char (of_char a div 4), b64_char (of_char a mod 4 * 16), CHR ''='', CHR ''='']"
| "b64encode [] = []"

text \<open>
  \<open>minidom.parseString(ET.tostring(root, encoding='utf-8'))\<close>.  \<open>ET.tostring\<close> escapes
  \<open>&\<close>, \<open><\<close> and \<open>>\<close> in texts and attribute values and the parser undoes it, so the
  parsed tree is the tree built, with these differences: a control character
  other than tab, newline and carriage return is not well-formed
  (\<open>ExpatError\<close>), and in a text a carriage return, alone or before a newline,
  is read as a newline.  Element and attribute names are those written by the
  builders.
\<close>

definition xml_char :: "char \<Rightarrow> bool" where
  "xml_char c = (32 \<le> (of_char c :: nat) \<or> c \<in> set [CHR 0x09, CHR 0x0A, CHR 0x0D])"

fun end_of_line :: "string \<Rightarrow> string" where
  "end_of_line [] = []"
| "end_of_line [c] = (if c = CHR 0x0D then [CHR 0x0A] else [c])"
| "end_of_line (c # d # cs) =
     (if c = CHR 0x0D \<and> d = CHR 0x0A then CHR 0x0A # end_of_line cs
      else if c = CHR 0x0D then CHR 0x0A # end_of_line (d # cs)
      else c # end_of_line (d # cs))"

fun text_of :: "xtext \<Rightarrow> string" where
  "text_of NoText = []"
| "text_of (Text s) = s"
| "text_of (Base64 data) = b64encode data"

fun well_formed :: "xml \<Rightarrow> bool" where
  "well_formed (Element tag attrs txt children) =
     (list_all (\<lambda>a. list_all xml_char (snd a)) attrs \<and> list_all xml_char (text_of txt)
      \<and> list_all well_formed children)"

fun parsed :: "xml \<Rightarrow> xml" where
  "parsed (Element tag attrs txt children) =
     Element tag attrs (Text (end_of_line (text_of txt))) (map parsed children)"

definition parseString :: "xml \<Rightarrow> py_error + xml" where
  "parseString tree = (if well_formed tree then Inr (parsed tree) else Inl ExpatError)"

text \<open>\<open>_write_data\<close> of \<open>xml.dom.minidom\<close>\<close>

definition write_data :: "string \<Rightarrow> string" where
  "write_data data =
     replace ''>'' ''&gt;'' (replace [CHR 0x22] ''&quot;'' (replace ''<'' ''&lt;''
       (replace ''&'' ''&amp;'' data)))"

text \<open>
  \<open>Element.writexml(writer, indent, addindent = "  ", newl = "\n")\<close>.  The child
  nodes of a parsed element are its text, when not empty, and its child elements.
\<close>

definition write_attr :: "string \<times> string \<Rightarrow> string" where
  "write_attr a = '' '' @ fst a @ ''=\"'' @ write_data (snd a) @ ''\"''"

fun writexml :: "string \<Rightarrow> xml \<Rightarrow> string" where
  "writexml indent (Element tag attrs txt children) =
     indent @ ''<'' @ tag @ concat (map write_attr attrs)
     @ (if text_of txt = [] \<and> children = [] then ''/>'' @ [CHR 0x0A]
        else if children = [] then ''>'' @ write_data (text_of txt) @ ''</'' @ tag @ ''>'' @ [CHR 0x0A]
        else ''>'' @ [CHR 0x0A]
             @ (if text_of txt = [] then []
                else write_data (indent @ ''  '' @ text_of txt @ [CHR 0x0A]))
             @ concat (map (writexml (indent @ ''  '')) children)
             @ indent @ ''</'' @ tag @ ''>'' @ [CHR 0x0A])"

text \<open>\<open>minidom.parseString(ET.tostring(root, encoding='utf-8')).toprettyxml(indent="  ")\<close>\<close>

definition toprettyxml :: "xml \<Rightarrow> py_error + string" where
  "toprettyxml tree =
     and_then (parseString tree)
       (\<lambda>doc. Inr (''<?xml version=\"1.0\" ?>'' @ [CHR 0x0A] @ writexml [] doc))"

subsection \<open>\<open>fix_case_study_details_tags\<close> (\<open>questions/question_processors.py\<close>)\<close>

text \<open>\<open>re.sub(p, f, s)\<close> with a function of the match as replacement.\<close>

fun sub_matches_with :: "(cursor \<times> cursor \<Rightarrow> string) \<Rightarrow> string \<Rightarrow> nat \<Rightarrow> (cursor \<times> cursor) list
    \<Rightarrow> string" where
  "sub_matches_with f s n [] = drop (length s - n) s"
| "sub_matches_with f s n (m # ms) =
     take (n - remaining (fst m)) (drop (length s - n) s) @ f m
       @ sub_matches_with f s (remaining (snd m)) ms"

definition re_sub_with :: "re \<Rightarrow> (cursor \<times> cursor \<Rightarrow> string) \<Rightarrow> string \<Rightarrow> string" where
  "re_sub_with p f s = sub_matches_with f s (length s) (re_finditer p s)"

text \<open>\<open>(<CaseStudyDetails>)(.*?)(</CaseStudyDetails>)\<close>, DOTALL\<close>

definition case_study_details_re :: re where
  "case_study_details_re =
     seqs [Grp 1 (lit ''<CaseStudyDetails>''), Grp 2 (StarL any_char),
           Grp 3 (lit ''</CaseStudyDetails>'')]"

definition replace_escaped_tags :: "cursor \<times> cursor \<Rightarrow> string" where
  "replace_escaped_tags m =
     (let opening_tag = group_text 1 m;
          content = group_text 2 m;
          closing_tag = group_text 3 m;
          content = replace ''&gt;'' ''>'' (replace ''&lt;'' ''<'' content)
      in opening_tag @ content @ closing_tag)"

definition fix_case_study_details_tags :: "string \<Rightarrow> string" where
  "fix_case_study_details_tags xml_string =
     re_sub_with case_study_details_re replace_escaped_tags xml_string"

subsection \<open>\<open>generate_xml_output\<close>\<close>

text \<open>
  Below, \<open>questions\<close> and \<open>studies\<close> are the arguments \<open>standalone_questions\<close> and
  \<open>case_studies\<close>, and \<open>build\<close> is the builder of the dispatch.
\<close>

text \<open>\<open>str(n)\<close> for a count.\<close>

function str_nat :: "nat \<Rightarrow> string" where
  "str_nat n =
     (if n < 10 then [char_of (48 + n)] else str_nat (n div 10) @ [char_of (48 + n mod 10)])"
  by pat_completeness auto

termination
  by (relation "measure id") auto

declare str_nat.simps [simp del]

text \<open>
  The testlet of a case study: its own element, then the elements of its
  questions sorted by number; and the testlet of the standalone questions.
\<close>

definition case_study_testlet :: "(question \<Rightarrow> string + xml) \<Rightarrow> case_study \<Rightarrow> py_error + xml" where
  "case_study_testlet build case_study =
     (if cs_questions case_study \<noteq> [] then
        and_then (sort_results (process_questions build (cs_questions case_study)))
          (\<lambda>results. Inr (Element ''Testlets'' [] NoText
                           (build_xml_for_case_study case_study # map r_element results)))
      else Inr (Element ''Testlets'' [] NoText [build_xml_for_case_study case_study]))"

definition standalone_testlet :: "(question \<Rightarrow> string + xml) \<Rightarrow> question list \<Rightarrow> py_error + xml list" where
  "standalone_testlet build questions =
     (if questions \<noteq> [] then
        and_then (sort_results (process_questions build questions))
          (\<lambda>results. Inr [Element ''Testlets'' [] NoText (map r_element results)])
      else Inr [])"

definition generate_xml_output :: "(question \<Rightarrow> string + xml) \<Rightarrow> question list \<Rightarrow> case_study list
    \<Rightarrow> py_error + string" where
  "generate_xml_output build questions studies =
     (let questions_count =
            length questions + sum_list (map (\<lambda>cs. length (cs_questions cs)) studies);
          metadata =
            [leaf ''Id'' [], leaf ''Code'' [], leaf ''Name'' [], leaf ''VendorName'' [],
             leaf ''QuestionsPerExam'' (str_nat questions_count), leaf ''Version'' [],
             leaf ''AllowedTime'' [], leaf ''MaxScore'' [], leaf ''RequiredScore'' [],
             leaf ''SchemaVersion'' [], leaf ''Sections'' []]
      in and_then (sort_case_studies studies) (\<lambda>sorted.
         and_then (try_map (case_study_testlet build) sorted) (\<lambda>testlets.
         and_then (standalone_testlet build questions) (\<lambda>standalone.
         and_then (toprettyxml (Element ''root'' [] NoText (metadata @ testlets @ standalone)))
           (\<lambda>xml_pretty. Inr (fix_case_study_details_tags xml_pretty))))))"

text \<open>
  Inputs used below.  Two case studies, the second started without a topic line of
  its own; the units of a case study whose one segment holds heading markup; a
  text with a details section.
\<close>

definition two_case_study_units :: "content_item list" where
  "two_case_study_units =
     map text_unit [''Topic 1, Case Study 1'', ''CaseStudyStart:'', ''CaseStudyEnd:'',
                    ''CaseStudyStart:'', ''CaseStudyEnd:'']"

definition bare_case_study :: "string \<Rightarrow> string \<Rightarrow> case_study" where
  "bare_case_study topic number =
     \<lparr>cs_topic_number = topic, cs_number = number, cs_topic_name = [], cs_segments = [],
      cs_questions = [], cs_images = []\<rparr>"

definition heading_units :: "content_item list" where
  "heading_units =
     map text_unit [''Topic 1, Case Study 1'', ''CaseStudyStart:'', ''CaseStudyDetailsStart:'',
                    ''Segment: Overview'', ''<CaseStudyHeading>Background</CaseStudyHeading>'',
                    ''CaseStudyDetailsEnd:'', ''CaseStudyEnd:'']"

definition heading_case_study :: case_study where
  "heading_case_study =
     \<lparr>cs_topic_number = ''1'', cs_number = ''1'', cs_topic_name = [],
      cs_segments =
        [\<lparr>seg_name = ''Overview'',
          seg_contents = [TextEntry ''<CaseStudyHeading>Background</CaseStudyHeading>'']\<rparr>],
      cs_questions = [], cs_images = []\<rparr>"

definition heading_output :: string where
  "heading_output = concat (map (\<lambda>l. l @ [CHR 0x0A])
     [''<?xml version=\"1.0\" ?>'',
      ''<root>'',
      ''  <Id/>'',
      ''  <Code/>'',
      ''  <Name/>'',
      ''  <VendorName/>'',
      ''  <QuestionsPerExam>0</QuestionsPerExam>'',
      ''  <Version/>'',
      ''  <AllowedTime/>'',
      ''  <MaxScore/>'',
      ''  <RequiredScore/>'',
      ''  <SchemaVersion/>'',
      ''  <Sections/>'',
      ''  <Testlets>'',
      ''    <CaseStudy>'',
      ''      <Number>1</Number>'',
      ''      <Name/>'',
      ''      <Segments>'',
      ''        <Name>Overview</Name>'',
      ''        <Contents>'',
      ''          <ContentType>Text</ContentType>'',
      ''          <Text>&lt;CaseStudyHeading&gt;Background&lt;/CaseStudyHeading&gt;</Text>'',
      ''        </Contents>'',
      ''      </Segments>'',
      ''    </CaseStudy>'',
      ''  </Testlets>'',
      ''</root>''])"

definition heading_marker_units :: "content_item list" where
  "heading_marker_units =
     map text_unit [''Topic 1, Case Study 1'', ''CaseStudyStart:'', ''CaseStudyDetailsStart:'',
                    ''Segment: Overview'', ''CaseStudyHeading: Background'',
                    ''CaseStudyDetailsEnd:'', ''CaseStudyEnd:'']"
section \<open>Validator: properties\<close>

lemma fold_validate_step:
  "fold validate_step qs st =
     (fst st \<and> (\<forall>q \<in> set qs. question_errors q = []), snd st @ concat (map question_errors qs))"
  by (induction qs arbitrary: st) (auto simp: validate_step_def Let_def)

lemma validate_question_images_eq:
  "validate_question_images qs =
     ((\<forall>q \<in> set qs. question_errors q = []), concat (map question_errors qs))"
  by (simp add: validate_question_images_def fold_validate_step)

lemma note_markers_mono: "k \<in> m \<Longrightarrow> k \<in> note_markers c m"
  by (simp add: note_markers_def Let_def)

lemma note_markers_question_option:
  "str_in ''QuestionOptionImage:'' c \<Longrightarrow> ''QuestionOptionImage'' \<in> note_markers c m"
  by (simp add: note_markers_def Let_def)

lemma note_markers_answer_option:
  "''AnswerOptionImage'' \<in> note_markers c m \<longleftrightarrow>
     str_in ''AnswerOptionImage:'' c \<or> ''AnswerOptionImage'' \<in> m"
  by (simp add: note_markers_def Let_def)

lemma fold_note_markers_mono:
  "k \<in> m \<Longrightarrow> k \<in> fold (\<lambda>item m. note_markers (ci_content item) m) items m"
  by (induction items arbitrary: m) (simp_all add: note_markers_mono)

lemma fold_note_markers_question_option:
  "\<exists>item \<in> set items. str_in ''QuestionOptionImage:'' (ci_content item) \<Longrightarrow>
     ''QuestionOptionImage'' \<in> fold (\<lambda>item m. note_markers (ci_content item) m) items m"
proof (induction items arbitrary: m)
  case Nil
  then show ?case by simp
next
  case (Cons a items)
  show ?case
  proof (cases "str_in ''QuestionOptionImage:'' (ci_content a)")
    case True
    then show ?thesis
      by (simp add: fold_note_markers_mono note_markers_question_option)
  next
    case False
    with Cons.prems have "\<exists>item \<in> set items. str_in ''QuestionOptionImage:'' (ci_content item)"
      by auto
    then show ?thesis by (simp add: Cons.IH)
  qed
qed

lemma fold_note_markers_answer_option:
  "''AnswerOptionImage'' \<in> fold (\<lambda>item m. note_markers (ci_content item) m) items m \<longleftrightarrow>
     (\<exists>item \<in> set items. str_in ''AnswerOptionImage:'' (ci_content item)) \<or> ''AnswerOptionImage'' \<in> m"
  by (induction items arbitrary: m) (auto simp: note_markers_answer_option)

lemma question_option_marked:
  assumes "(\<exists>item \<in> set (q_content_items q). str_in ''QuestionOptionImage:'' (ci_content item))
             \<or> str_in ''QuestionOptionImage:'' (q_text q)"
  shows "''QuestionOptionImage'' \<in> image_markers_of q"
  using assms
  by (auto simp: image_markers_of_def note_markers_question_option
      intro: note_markers_mono fold_note_markers_question_option)

lemma answer_option_marked:
  "''AnswerOptionImage'' \<in> image_markers_of q \<longleftrightarrow>
     (\<exists>item \<in> set (q_content_items q). str_in ''AnswerOptionImage:'' (ci_content item))
       \<or> str_in ''AnswerOptionImage:'' (q_text q)"
  by (auto simp: image_markers_of_def note_markers_answer_option fold_note_markers_answer_option)

lemma hotspot_missing_answer_errors:
  assumes "q_type q = ''HOTSPOT''"
    and "(\<exists>item \<in> set (q_content_items q). str_in ''QuestionOptionImage:'' (ci_content item))
           \<or> str_in ''QuestionOptionImage:'' (q_text q)"
    and "\<forall>item \<in> set (q_content_items q). \<not> str_in ''AnswerOptionImage:'' (ci_content item)"
    and "\<not> str_in ''AnswerOptionImage:'' (q_text q)"
  shows "question_errors q =
           [''Question '' @ py_str (q_number q) @ '' (HOTSPOT) - Missing AnswerOptionImage'']"
proof -
  have a: "''QuestionOptionImage'' \<in> image_markers_of q"
    using assms(2) by (rule question_option_marked)
  have b: "''AnswerOptionImage'' \<notin> image_markers_of q"
    using assms(3,4) by (simp add: answer_option_marked)
  show ?thesis
    using a b assms(1) by (simp add: question_errors_def require2_def Let_def)
qed

text \<open>
  C4.  A question of type \<open>HOTSPOT\<close> whose content carries the marker
  \<open>QuestionOptionImage:\<close> (in a content item or in its text) and nowhere the marker
  \<open>AnswerOptionImage:\<close> makes the validator return \<open>False\<close>, and contributes exactly
  one message, \<open>Question <number> (HOTSPOT) - Missing AnswerOptionImage\<close>, placed
  between the messages of the questions before it and of those after it.  The
  validator is a function of the question list alone and returns only the flag and
  the messages: the source reads the dictionaries with \<open>get\<close> and writes to none.
\<close>

theorem validate_hotspot_missing_answer_marker:
  assumes "q_type q = ''HOTSPOT''"
    and "(\<exists>item \<in> set (q_content_items q). str_in ''QuestionOptionImage:'' (ci_content item))
           \<or> str_in ''QuestionOptionImage:'' (q_text q)"
    and "\<forall>item \<in> set (q_content_items q). \<not> str_in ''AnswerOptionImage:'' (ci_content item)"
    and "\<not> str_in ''AnswerOptionImage:'' (q_text q)"
  shows "validate_question_images (before @ q # after) =
           (False,
            snd (validate_question_images before)
              @ [''Question '' @ py_str (q_number q) @ '' (HOTSPOT) - Missing AnswerOptionImage'']
              @ snd (validate_question_images after))
         \<and> question_errors q =
             [''Question '' @ py_str (q_number q) @ '' (HOTSPOT) - Missing AnswerOptionImage'']"
  using hotspot_missing_answer_errors [OF assms]
  by (simp add: validate_question_images_eq)

theorem validate_hotspot_missing_answer_marker_witness:
  "validate_question_images [hotspot_no_answer] =
     (False, [''Question 7 (HOTSPOT) - Missing AnswerOptionImage''])"
  using validate_hotspot_missing_answer_marker [of hotspot_no_answer "[]" "[]"]
  by (simp add: hotspot_no_answer_def validate_question_images_def)

section \<open>Grouping state machine: properties\<close>

lemma no_case_study_marker_not_handled:
  assumes "\<not> matches_case_study_marker (ci_content u)"
  shows "handle_case_study_markers u (ci_content u) g = None"
proof -
  from assms have "re_search topic_re (ci_content u) = None"
    by (cases "re_search topic_re (ci_content u)")
       (simp_all add: matches_case_study_marker_def re_test_def)
  with assms show ?thesis
    by (simp add: matches_case_study_marker_def handle_case_study_markers_def)
qed

lemma question_start_step:
  assumes "\<not> matches_case_study_marker (ci_content u)" and "has_question_start u"
  shows "process_single_item u g =
           (finalize_current_question g)\<lparr>current_question := Some (create_question_from_item u)\<rparr>"
  using no_case_study_marker_not_handled [OF assms(1), of g] assms(2)
  by (simp add: process_single_item_def handle_question_markers_def)



















section \<open>Image classifier: properties\<close>

lemma next_type_cases:
  "next_type s c = (case next_type s None of None \<Rightarrow> c | Some r \<Rightarrow> Some r)"
  by (simp add: next_type_def)

lemma assign_images_apply:
  "assign_images t imgs m p = (if p \<in> img_path ` set imgs then Some t else m p)"
  unfolding assign_images_def
  by (induction imgs arbitrary: m) auto

lemma identify_step_unmarked:
  "unmarked x \<Longrightarrow>
   identify_step x (m, c) = (case c of None \<Rightarrow> m | Some t \<Rightarrow> assign_images t (ci_images x) m, c)"
  using next_type_cases [of "strip (ci_content x)" c]
  by (cases c) (simp_all add: identify_step_def unmarked_def Let_def)

lemma identify_step_marked:
  "next_type (strip (ci_content u)) None = Some r \<Longrightarrow>
   identify_step u (m, c) = (assign_images r (ci_images u) m, Some r)"
  using next_type_cases [of "strip (ci_content u)" c]
  by (simp add: identify_step_def Let_def)

lemma scan_unmarked_none:
  "\<forall>x \<in> set items. unmarked x \<Longrightarrow> fold identify_step items (m, None) = (m, None)"
  by (induction items arbitrary: m) (simp_all add: identify_step_unmarked)

lemma scan_unmarked_some:
  "\<forall>x \<in> set items. unmarked x \<Longrightarrow>
   fold identify_step items (m, Some r) =
     (\<lambda>p. if p \<in> img_path ` set (concat (map ci_images items)) then Some r else m p, Some r)"
proof (induction items arbitrary: m)
  case Nil
  then show ?case by simp
next
  case (Cons x items)
  have "fold identify_step (x # items) (m, Some r)
          = fold identify_step items (assign_images r (ci_images x) m, Some r)"
    using Cons.prems by (simp add: identify_step_unmarked)
  also have "\<dots> = (\<lambda>p. if p \<in> img_path ` set (concat (map ci_images items)) then Some r
                         else assign_images r (ci_images x) m p, Some r)"
    using Cons.prems by (simp add: Cons.IH)
  finally show ?case
    by (auto simp: assign_images_apply fun_eq_iff)
qed

lemma scan_path_unused:
  "p \<notin> img_path ` set (concat (map ci_images items)) \<Longrightarrow>
   fst (fold identify_step items (m, c)) p = m p"
proof (induction items arbitrary: m c)
  case Nil
  then show ?case by simp
next
  case (Cons x items)
  obtain m' c' where st: "identify_step x (m, c) = (m', c')"
    by (cases "identify_step x (m, c)")
  have "m' p = m p"
    using st Cons.prems
    by (auto simp: identify_step_def Let_def assign_images_apply split: option.splits)
  moreover have "fst (fold identify_step items (m', c')) p = m' p"
    using Cons.prems by (intro Cons.IH) auto
  ultimately show ?case by (simp add: st)
qed

lemma role_after_marker:
  assumes "next_type (strip (ci_content u)) None = Some r"
    and "\<forall>x \<in> set mid. unmarked x"
    and "img \<in> set (concat (map ci_images (u # mid)))"
    and "path_unused img later"
  shows "identify_image_types (before @ u # mid @ later) (img_path img) = Some r"
proof -
  obtain m0 c0 where s0: "fold identify_step before (Map.empty, None) = (m0, c0)"
    by (cases "fold identify_step before (Map.empty, None)")
  let ?m1 = "assign_images r (ci_images u) m0"
  let ?m2 = "\<lambda>p. if p \<in> img_path ` set (concat (map ci_images mid)) then Some r else ?m1 p"
  have s2: "fold identify_step (before @ u # mid) (Map.empty, None) = (?m2, Some r)"
    using assms(1,2) by (simp add: s0 identify_step_marked scan_unmarked_some)
  have "?m2 (img_path img) = Some r"
    using assms(3) by (auto simp: assign_images_apply)
  moreover have "identify_image_types (before @ u # mid @ later) (img_path img)
                   = ?m2 (img_path img)"
  proof -
    have "fold identify_step (before @ u # mid @ later) (Map.empty, None)
            = fold identify_step later (fold identify_step (before @ u # mid) (Map.empty, None))"
      by simp
    then have "fold identify_step (before @ u # mid @ later) (Map.empty, None)
            = fold identify_step later (?m2, Some r)"
      by (simp only: s2)
    then show ?thesis
      using assms(4) scan_path_unused [of "img_path img" later ?m2 "Some r"]
      by (simp add: identify_image_types_def path_unused_def)
  qed
  ultimately show ?thesis by simp
qed

lemma role_before_any_marker:
  assumes "\<forall>x \<in> set pre. unmarked x" and "path_unused img later"
  shows "identify_image_types (pre @ later) (img_path img) = None"
  using assms scan_path_unused [of "img_path img" later Map.empty None]
  by (simp add: identify_image_types_def path_unused_def scan_unmarked_none)

text \<open>
  C8 (as amended).  The mapping is keyed by image path and the last assignment to
  a path wins.  Once a unit with a role marker has set the current role, every image
  of that unit and of the following units without a marker is mapped to that role,
  provided its path is not used again by a later unit; an image met before any marker
  whose path is not used again by a later unit has no entry in the mapping, and the
  builder's sequential content then treats it as a description image.
\<close>

theorem image_role_sticky:
  "(next_type (strip (ci_content u)) None = Some r
      \<longrightarrow> (\<forall>x \<in> set mid. unmarked x)
      \<longrightarrow> img \<in> set (concat (map ci_images (u # mid)))
      \<longrightarrow> path_unused img later
      \<longrightarrow> identify_image_types (before @ u # mid @ later) (img_path img) = Some r)
   \<and> ((\<forall>x \<in> set pre. unmarked x)
      \<longrightarrow> img' \<in> set (concat (map ci_images pre))
      \<longrightarrow> path_unused img' later'
      \<longrightarrow> identify_image_types (pre @ later') (img_path img') = None
          \<and> consumed_role (identify_image_types (pre @ later')) img' = ''description''
          \<and> item_image_nodes (identify_image_types (pre @ later')) img'
              = [add_image_content img' False False])"
  using role_after_marker [of u r mid img later before] role_before_any_marker [of pre img' later']
  by (simp add: consumed_role_def item_image_nodes_def)

lemma sticky_units_facts:
  "next_type (strip (ci_content (text_unit ''QuestionOptionImage:''))) None = Some ''question''"
  "unmarked (picture_unit '''' ''b'')"
  "unmarked (picture_unit ''Study the figure'' ''a'')"
  "path_unused (picture ''b'') [picture_unit ''AnswerOptionImage:'' ''c'']"
  "path_unused (picture ''a'')
     [text_unit ''QuestionOptionImage:'', picture_unit '''' ''b'', picture_unit ''AnswerOptionImage:'' ''c'']"
  by code_simp+

theorem image_role_sticky_witness:
  "identify_image_types sticky_units (img_path (picture ''b'')) = Some ''question''
   \<and> identify_image_types sticky_units (img_path (picture ''a'')) = None
   \<and> consumed_role (identify_image_types sticky_units) (picture ''a'') = ''description''"
  using image_role_sticky
    [of "text_unit ''QuestionOptionImage:''" "''question''" "[picture_unit '''' ''b'']" "picture ''b''"
        "[picture_unit ''AnswerOptionImage:'' ''c'']" "[picture_unit ''Study the figure'' ''a'']"
        "[picture_unit ''Study the figure'' ''a'']" "picture ''a''"
        "[text_unit ''QuestionOptionImage:'', picture_unit '''' ''b'', picture_unit ''AnswerOptionImage:'' ''c'']"]
    sticky_units_facts
  by (simp add: sticky_units_def) (simp add: picture_unit_def)

text \<open>
  The claim as stated fails when a path is used twice: the first unit stands before
  any marker, and its image is nevertheless mapped to the role set later for the
  same path.
\<close>

theorem reused_path_takes_later_role:
  "unmarked (picture_unit ''Study the figure'' ''a'')
   \<and> picture ''a'' \<in> set (ci_images (picture_unit ''Study the figure'' ''a''))
   \<and> identify_image_types reused_picture_units (img_path (picture ''a'')) = Some ''question''
   \<and> consumed_role (identify_image_types reused_picture_units) (picture ''a'') = ''question''"
  by code_simp

section \<open>Builder dispatch: properties\<close>

lemma process_questions_fold:
  "fold (\<lambda>question_data results. results @ [process_question build question_data]) qs acc
     = acc @ map (process_question build) qs"
  by (induction qs arbitrary: acc) simp_all

lemma process_questions_map:
  "process_questions build qs = map (process_question build) qs"
  by (simp add: process_questions_def process_questions_fold)




section \<open>The end-to-end scenario\<close>

lemma append_unit_step:
  assumes "\<not> matches_marker (ci_content u)"
    and "current_question g = Some q"
    and "current_case_study (state g) = None"
  shows "process_single_item u g = add_item_to_current_question u g"
proof -
  have m: "handle_case_study_markers u (ci_content u) g = None"
    using assms(1) by (simp add: matches_marker_def no_case_study_marker_not_handled)
  have s: "handle_question_markers u (ci_content u) g = None"
    using assms(1) by (simp add: matches_marker_def handle_question_markers_def has_question_start_def)
  have c: "handle_case_study_content u (ci_content u) g = None"
    using assms(3) by (simp add: handle_case_study_content_def)
  show ?thesis
    using m s c assms(2) by (simp add: process_single_item_def)
qed

lemma scenario_unit_facts:
  "\<not> matches_case_study_marker ''QUESTION NO: 1 SingleChoice''"
  "has_question_start (text_unit ''QUESTION NO: 1 SingleChoice'')"
  "\<not> matches_marker ''A. Paris''"
  "\<not> matches_marker ''B. London''"
  "\<not> matches_marker ''Answer: A''"
  "get_question_number ''QUESTION NO: 1 SingleChoice'' = Some ''1''"
  by code_simp+

lemma scenario_type_searches:
  "\<not> any_search positioneddragdrop_patterns ''QUESTION NO: 1 SingleChoice''"
  "\<not> any_search positioneddropdown_patterns ''QUESTION NO: 1 SingleChoice''"
  "\<not> any_search fillintheblank_patterns ''QUESTION NO: 1 SingleChoice''"
  "\<not> any_search simulation_patterns ''QUESTION NO: 1 SingleChoice''"
  "map_option (\<lambda>m. upper (group_text 1 m)) (re_search type_match_re ''QUESTION NO: 1 SingleChoice'')
     = Some ''SINGLECHOICE''"
  "\<not> re_test hotspot_cue_re ''QUESTION NO: 1 SingleChoice''"
  "\<not> re_test dragdrop_cue_re ''QUESTION NO: 1 SingleChoice''"
  "\<not> re_test dropdown_cue_re ''QUESTION NO: 1 SingleChoice''"
  "re_search answer_line_re ''QUESTION NO: 1 SingleChoice'' = None"
  by code_simp+

lemma scenario_type:
  "get_question_type ''QUESTION NO: 1 SingleChoice'' = ''SingleChoice''"
proof -
  obtain m where m: "re_search type_match_re ''QUESTION NO: 1 SingleChoice'' = Some m"
    and u: "upper (group_text 1 m) = ''SINGLECHOICE''"
    using scenario_type_searches(5) by (auto simp: map_option_case split: option.splits)
  show ?thesis
    using scenario_type_searches(1-4,6-9)
    by (simp add: get_question_type_def m u declared_types_def del: One_nat_def)
qed

lemma scenario_first_question:
  "create_question_from_item (text_unit ''QUESTION NO: 1 SingleChoice'') =
     \<lparr>q_number = Some ''1'', q_type = ''SingleChoice'',
      q_content_items = [text_unit ''QUESTION NO: 1 SingleChoice''],
      q_text = ''QUESTION NO: 1 SingleChoice'', q_images = []\<rparr>"
  by (simp add: create_question_from_item_def text_unit_def scenario_type scenario_unit_facts)

lemma scenario_grouping:
  "process_content_items scenario_units = ([scenario_question], [])"
proof -
  let ?u1 = "text_unit ''QUESTION NO: 1 SingleChoice''"
  let ?g1 = "initial_grouper\<lparr>current_question := Some (create_question_from_item ?u1)\<rparr>"
  have 1: "process_single_item ?u1 initial_grouper = ?g1"
    using scenario_unit_facts(1,2)
    by (simp add: question_start_step text_unit_def)
       (simp add: finalize_current_question_def initial_grouper_def)
  have step: "process_single_item (text_unit s) g = add_item_to_current_question (text_unit s) g"
    if "\<not> matches_marker s" "current_question g = Some q" "current_case_study (state g) = None"
    for s g q
    using that by (intro append_unit_step [where q = q]) (simp_all add: text_unit_def)
  let ?g2 = "add_item_to_current_question (text_unit ''A. Paris'') ?g1"
  let ?g3 = "add_item_to_current_question (text_unit ''B. London'') ?g2"
  let ?g4 = "add_item_to_current_question (text_unit ''Answer: A'') ?g3"
  have 2: "process_single_item (text_unit ''A. Paris'') ?g1 = ?g2"
    by (rule step [OF scenario_unit_facts(3)])
       (simp_all add: initial_grouper_def initial_state_def)
  have 3: "process_single_item (text_unit ''B. London'') ?g2 = ?g3"
    by (rule step [OF scenario_unit_facts(4)])
       (simp_all add: add_item_to_current_question_def initial_grouper_def initial_state_def)
  have 4: "process_single_item (text_unit ''Answer: A'') ?g3 = ?g4"
    by (rule step [OF scenario_unit_facts(5)])
       (simp_all add: add_item_to_current_question_def initial_grouper_def initial_state_def)
  have run: "process_items scenario_units initial_grouper = ?g4"
    by (simp add: process_items_def scenario_units_def 1 2 3 4)
  have g4: "?g4 = initial_grouper\<lparr>current_question := Some scenario_question\<rparr>"
    unfolding scenario_first_question
    by (simp add: add_item_to_current_question_def initial_grouper_def
        scenario_question_def scenario_units_def text_unit_def)
  show ?thesis
    unfolding process_content_items_def run g4
    by (simp add: finalize_processing_def push_case_study_def
        initial_grouper_def initial_state_def)
qed

lemma scenario_options:
  "extract_options_from_text (q_text scenario_question) ''SingleChoice''
     = ([(''A'', ''Paris''), (''B'', ''London'')], [''A''], ''SingleChoice'')"
  by code_simp

lemma scenario_sequential_content: "add_sequential_content scenario_question = []"
  by code_simp

lemma scenario_explanation: "add_explanation scenario_question = []"
  by code_simp

lemma scenario_build: "build_text_based scenario_question = scenario_node"
proof -
  have t: "q_type scenario_question = ''SingleChoice''" "q_number scenario_question = Some ''1''"
    "q_content_items scenario_question \<noteq> []"
    by (simp_all add: scenario_question_def scenario_units_def)
  have "extract_text_options scenario_question = ([(''A'', ''Paris''), (''B'', ''London'')], [''A''])"
    by (simp add: extract_text_options_def t scenario_options unique_in_order_def)
  then show ?thesis
    by (simp add: build_text_based_def build_xml_def t scenario_sequential_content
        scenario_explanation add_text_choices_to_xml_def add_basic_elements_def add_id_element_def
        scenario_node_def contents_node_def)
qed

text \<open>
  C5.  The four text units \<open>QUESTION NO: 1 SingleChoice\<close>, \<open>A. Paris\<close>,
  \<open>B. London\<close>, \<open>Answer: A\<close> are grouped into exactly one standalone question and no
  case study; the question has number 1 and type SingleChoice; the dispatch builds
  for it the node \<open>scenario_node\<close>, whose \<open>Choices\<close> children are the two lettered
  options A (Paris) and B (London) and whose only \<open>Answer\<close> child holds the value A.
\<close>

theorem scenario_single_choice:
  "process_content_items scenario_units = ([scenario_question], [])
   \<and> q_number scenario_question = Some ''1''
   \<and> q_type scenario_question = ''SingleChoice''
   \<and> process_questions (build_question classes) (fst (process_content_items scenario_units))
       = [\<lparr>r_number = Some ''1'', r_type = ''SingleChoice'', r_element = scenario_node\<rparr>]
   \<and> children_tagged ''Choices'' scenario_node
       = [Element ''Choices'' [] NoText
            [leaf ''Number'' ''A'',
             Element ''Contents'' [] NoText [leaf ''ContentType'' ''Text'', leaf ''Text'' ''Paris'']],
          Element ''Choices'' [] NoText
            [leaf ''Number'' ''B'',
             Element ''Contents'' [] NoText [leaf ''ContentType'' ''Text'', leaf ''Text'' ''London'']]]
   \<and> children_tagged ''Answer'' scenario_node
       = [Element ''Answer'' [] NoText [leaf ''Choices'' ''A'']]"
proof -
  have t: "q_type scenario_question = ''SingleChoice''" "q_number scenario_question = Some ''1''"
    by (simp_all add: scenario_question_def)
  have p: "promoted_type scenario_question = ''SingleChoice''"
    by (simp add: promoted_type_def t scenario_options)
  have pq: "promote scenario_question = scenario_question"
    by (simp add: promote_def p) (simp add: scenario_question_def)
  have u: "upper ''SingleChoice'' = ''SINGLECHOICE''"
    by code_simp
  have b: "build_question classes scenario_question = Inr scenario_node"
    by (simp add: build_question_def t u scenario_build)
  have r: "process_questions (build_question classes) [scenario_question]
             = [\<lparr>r_number = Some ''1'', r_type = ''SingleChoice'', r_element = scenario_node\<rparr>]"
    by (simp add: process_questions_map process_question_def pq b p t)
  have c: "children_tagged ''Choices'' scenario_node
       = [Element ''Choices'' [] NoText
            [leaf ''Number'' ''A'',
             Element ''Contents'' [] NoText [leaf ''ContentType'' ''Text'', leaf ''Text'' ''Paris'']],
          Element ''Choices'' [] NoText
            [leaf ''Number'' ''B'',
             Element ''Contents'' [] NoText [leaf ''ContentType'' ''Text'', leaf ''Text'' ''London'']]]"
    "children_tagged ''Answer'' scenario_node = [Element ''Answer'' [] NoText [leaf ''Choices'' ''A'']]"
    by (simp_all add: children_tagged_def scenario_node_def leaf_def)
  show ?thesis
    by (simp only: scenario_grouping fst_conv r t c simp_thms)
qed


section \<open>Properties of the assembler's sort\<close>

lemma pair_lt_mixed:
  "(\<exists>n. fst a = IntKey n) \<noteq> (\<exists>n. fst b = IntKey n) \<Longrightarrow> pair_lt a b = Inl TypeError"
  by (cases a; cases b; cases "fst a"; cases "fst b") auto

lemma key_lt_error: "key_lt a b = Inl e \<Longrightarrow> e = TypeError"
  by (cases a; cases b) auto

lemma pair_lt_error: "pair_lt a b = Inl e \<Longrightarrow> e = TypeError"
  by (cases a; cases b) (auto split: if_splits dest: key_lt_error)

lemma insert_by_cases:
  "insert_by pair_lt x ys = Inl TypeError
   \<or> (\<exists>zs. insert_by pair_lt x ys = Inr zs \<and> set zs = insert x (set ys))"
proof (induction ys)
  case Nil
  show ?case by simp
next
  case (Cons y ys)
  show ?case
  proof (cases "pair_lt (fst x) (fst y)")
    case (Inl e)
    then show ?thesis using pair_lt_error [OF Inl] by simp
  next
    case (Inr less)
    then show ?thesis using Cons.IH by (cases less) auto
  qed
qed

lemma fold_insert_error:
  "fold (\<lambda>x placed. and_then placed (insert_by lt x)) xs (Inl e) = Inl e"
  by (induction xs) simp_all

lemma fold_insert_mixed:
  assumes "\<forall>y \<in> set ys. (\<exists>n. fst (fst y) = IntKey n) = K" and "ys \<noteq> []"
    and "\<exists>x \<in> set xs. (\<exists>n. fst (fst x) = IntKey n) \<noteq> K"
  shows "fold (\<lambda>x placed. and_then placed (insert_by pair_lt x)) xs (Inr ys) = Inl TypeError"
  using assms
proof (induction xs arbitrary: ys)
  case Nil
  then show ?case by simp
next
  case (Cons x xs)
  obtain y ys' where ys: "ys = y # ys'" using Cons.prems(2) by (cases ys) auto
  show ?case
  proof (cases "(\<exists>n. fst (fst x) = IntKey n) = K")
    case False
    then have "(\<exists>n. fst (fst x) = IntKey n) \<noteq> (\<exists>n. fst (fst y) = IntKey n)"
      using Cons.prems(1) ys by simp
    then have "pair_lt (fst x) (fst y) = Inl TypeError" by (rule pair_lt_mixed)
    then show ?thesis by (simp add: ys fold_insert_error)
  next
    case True
    from insert_by_cases [of x ys] show ?thesis
    proof
      assume "insert_by pair_lt x ys = Inl TypeError"
      then show ?thesis by (simp add: fold_insert_error)
    next
      assume "\<exists>zs. insert_by pair_lt x ys = Inr zs \<and> set zs = insert x (set ys)"
      then obtain zs where zs: "insert_by pair_lt x ys = Inr zs" "set zs = insert x (set ys)"
        by blast
      have "\<forall>y \<in> set zs. (\<exists>n. fst (fst y) = IntKey n) = K"
        using zs(2) True Cons.prems(1) by auto
      moreover have "zs \<noteq> []" using zs(2) by auto
      moreover have "\<exists>x \<in> set xs. (\<exists>n. fst (fst x) = IntKey n) \<noteq> K"
        using Cons.prems(3) True by auto
      ultimately have "fold (\<lambda>x placed. and_then placed (insert_by pair_lt x)) xs (Inr zs)
          = Inl TypeError"
        by (rule Cons.IH)
      then show ?thesis by (simp add: zs(1))
    qed
  qed
qed

lemma try_map_keys:
  "try_map (\<lambda>x. Inr (f x, x)) xs = Inr (map (\<lambda>x. (f x, x)) xs)"
  by (induction xs) simp_all

lemma case_study_key_kind:
  "(\<exists>n. fst (case_study_key x) = IntKey n) = isdigit (cs_topic_number x)"
  by (simp add: case_study_key_def token_key_def)

lemma sort_case_studies_mixed:
  assumes "a \<in> set studies" and "b \<in> set studies"
    and "isdigit (cs_topic_number a)" and "\<not> isdigit (cs_topic_number b)"
  shows "sort_case_studies studies = Inl TypeError"
proof -
  obtain x rest where studies: "studies = x # rest" using assms(1) by (cases studies) auto
  let ?keyed = "\<lambda>x. (case_study_key x, x)"
  have "\<exists>c \<in> set rest. isdigit (cs_topic_number c) \<noteq> isdigit (cs_topic_number x)"
    using assms studies by (cases "isdigit (cs_topic_number x)") auto
  then have "\<exists>p \<in> set (map ?keyed rest).
      (\<exists>n. fst (fst p) = IntKey n) \<noteq> isdigit (cs_topic_number x)"
    by (simp add: case_study_key_kind)
  moreover have "\<forall>p \<in> set [?keyed x]. (\<exists>n. fst (fst p) = IntKey n) = isdigit (cs_topic_number x)"
    by (simp add: case_study_key_kind)
  ultimately have "fold (\<lambda>x placed. and_then placed (insert_by pair_lt x)) (map ?keyed rest)
      (Inr [?keyed x]) = Inl TypeError"
    by (intro fold_insert_mixed) simp_all
  then show ?thesis
    by (simp add: sort_case_studies_def py_sort_def try_map_keys studies)
qed

text \<open>
  When every token is numeric the order is the numeric one: topic 2 comes before
  topic 10.
\<close>

lemma numeric_topics_sorted_numerically:
  "sort_case_studies [bare_case_study ''10'' ''1'', bare_case_study ''2'' ''1'']
     = Inr [bare_case_study ''2'' ''1'', bare_case_study ''10'' ''1'']"
  by code_simp

text \<open>
  C3.  The sort of the case studies is not defined on mixed keys: whenever the list
  holds a case study whose topic number is all digits and one whose topic number is
  not (it may be empty), the comparison of an \<open>int\<close> with a \<open>str\<close> raises
  \<open>TypeError\<close>, the sort fails and \<open>generate_xml_output\<close> fails with it.
\<close>

theorem sort_fails_on_mixed_topic_numbers:
  assumes "a \<in> set studies" and "b \<in> set studies"
    and "isdigit (cs_topic_number a)" and "\<not> isdigit (cs_topic_number b)"
  shows "sort_case_studies studies = Inl TypeError
         \<and> generate_xml_output build questions studies = Inl TypeError"
  using sort_case_studies_mixed [OF assms]
  by (simp add: generate_xml_output_def)

lemma two_case_study_units_grouped:
  "process_content_items two_case_study_units
     = ([], [bare_case_study ''1'' ''1'', bare_case_study [] []])"
  by code_simp

lemma bare_case_study_tokens:
  "isdigit (cs_topic_number (bare_case_study ''1'' ''1''))"
  "\<not> isdigit (cs_topic_number (bare_case_study [] []))"
  by code_simp+

theorem sort_fails_on_mixed_topic_numbers_witness:
  "process_content_items two_case_study_units
     = ([], [bare_case_study ''1'' ''1'', bare_case_study [] []])
   \<and> sort_case_studies [bare_case_study ''1'' ''1'', bare_case_study [] []] = Inl TypeError
   \<and> generate_xml_output never_failing [] [bare_case_study ''1'' ''1'', bare_case_study [] []]
       = Inl TypeError"
  using sort_fails_on_mixed_topic_numbers
    [of "bare_case_study ''1'' ''1''" "[bare_case_study ''1'' ''1'', bare_case_study [] []]"
        "bare_case_study [] []" never_failing "[]"]
    bare_case_study_tokens two_case_study_units_grouped
  by simp

section \<open>Properties of the post-pass\<close>

lemma rmatch_lit:
  "rmatch (lit s) (l, r, g) = (if prefix s r then [(rev s @ l, drop (length s) r, g)] else [])"
proof (induction s arbitrary: l r)
  case Nil
  show ?case by (simp add: lit_def)
next
  case (Cons c s)
  have "lit (c # s) = Seq (Sym (\<lambda>x. x = c)) (lit s)" by (simp add: lit_def)
  then show ?case using Cons.IH by (cases r) auto
qed

lemma details_re_needs_opening_tag:
  "\<not> prefix ''<CaseStudyDetails>'' r \<Longrightarrow> rmatch case_study_details_re (l, r, g) = []"
  by (simp add: case_study_details_re_def rmatch_lit)

lemma search_details_none:
  "\<not> str_in ''<CaseStudyDetails>'' r \<Longrightarrow> search_from case_study_details_re l r = None"
proof (induction r arbitrary: l)
  case Nil
  show ?case by (simp add: details_re_needs_opening_tag)
next
  case (Cons x xs)
  then show ?case by (simp add: details_re_needs_opening_tag)
qed

text \<open>A text without the opening tag of a details section is left as it is.\<close>

lemma fix_without_details_section:
  "\<not> str_in ''<CaseStudyDetails>'' s \<Longrightarrow> fix_case_study_details_tags s = s"
  by (simp add: fix_case_study_details_tags_def re_sub_with_def re_finditer_def search_details_none)

lemma heading_units_grouped: "process_content_items heading_units = ([], [heading_case_study])"
  by code_simp

lemma heading_marker_units_grouped:
  "process_content_items heading_marker_units
     = ([], [heading_case_study\<lparr>cs_segments :=
               [\<lparr>seg_name = ''Overview'',
                 seg_contents = [TextEntry ''CaseStudyHeading: Background'']\<rparr>]\<rparr>])"
  by code_simp

lemma heading_tree_serialized:
  "toprettyxml (Element ''root'' [] NoText
       [leaf ''Id'' [], leaf ''Code'' [], leaf ''Name'' [], leaf ''VendorName'' [],
        leaf ''QuestionsPerExam'' ''0'', leaf ''Version'' [],
        leaf ''AllowedTime'' [], leaf ''MaxScore'' [], leaf ''RequiredScore'' [],
        leaf ''SchemaVersion'' [], leaf ''Sections'' [],
        Element ''Testlets'' [] NoText [build_xml_for_case_study heading_case_study]])
   = Inr heading_output"
  by code_simp

lemma heading_output_facts:
  "\<not> str_in ''<CaseStudyDetails>'' heading_output"
  "str_in ''<Text>&lt;CaseStudyHeading&gt;Background&lt;/CaseStudyHeading&gt;</Text>'' heading_output"
  "\<not> str_in ''<CaseStudyHeading>'' heading_output"
  by code_simp+

lemma heading_sorted: "sort_case_studies [heading_case_study] = Inr [heading_case_study]"
  by code_simp

lemma heading_count: "str_nat 0 = ''0''" "cs_questions heading_case_study = []"
  by code_simp+

text \<open>
  C9.  A case study whose segment text holds heading markup is serialized with the
  markup escaped, and the post-pass leaves it escaped: the assembler writes the
  segments under \<open>CaseStudy\<close>, \<open>Segments\<close> and \<open>Contents\<close>, the output has no
  \<open>CaseStudyDetails\<close> section, and the post-pass only rewrites such sections (as it
  does on the last text below).
\<close>

theorem heading_markup_stays_escaped:
  "process_content_items heading_units = ([], [heading_case_study])
   \<and> generate_xml_output build [] [heading_case_study] = Inr heading_output
   \<and> str_in ''<Text>&lt;CaseStudyHeading&gt;Background&lt;/CaseStudyHeading&gt;</Text>'' heading_output
   \<and> \<not> str_in ''<CaseStudyHeading>'' heading_output
   \<and> \<not> str_in ''<CaseStudyDetails>'' heading_output
   \<and> fix_case_study_details_tags
         ''<CaseStudyDetails>&lt;CaseStudyHeading&gt;Background&lt;/CaseStudyHeading&gt;</CaseStudyDetails>''
       = ''<CaseStudyDetails><CaseStudyHeading>Background</CaseStudyHeading></CaseStudyDetails>''"
proof -
  have "generate_xml_output build [] [heading_case_study] = Inr heading_output"
    by (simp add: generate_xml_output_def heading_sorted case_study_testlet_def
        standalone_testlet_def heading_count heading_tree_serialized
        fix_without_details_section heading_output_facts)
  moreover have "fix_case_study_details_tags
         ''<CaseStudyDetails>&lt;CaseStudyHeading&gt;Background&lt;/CaseStudyHeading&gt;</CaseStudyDetails>''
       = ''<CaseStudyDetails><CaseStudyHeading>Background</CaseStudyHeading></CaseStudyDetails>''"
    by code_simp
  ultimately show ?thesis
    using heading_units_grouped heading_output_facts by simp
qed
end
